theory Spec2Isabelle
  imports Main
begin

section \<open>Errors and primitive JavaScript values\<close>

text \<open>
  Every \<^verbatim>\<open>throw\<close> of the source is a value. \<open>TypeError\<close> is the runtime's own
  error (reading a property of \<^verbatim>\<open>undefined\<close>, \<^verbatim>\<open>Object.entries(null)\<close>);
  \<open>Error msg\<close> is \<^verbatim>\<open>new Error(msg)\<close>; \<open>ModelError name model cause\<close> is
  \<^verbatim>\<open>new this.model.errors[name](cause)\<close> as built by \<^verbatim>\<open>Query.prototype._throw\<close>.
\<close>

datatype error =
    TypeError
  | Error string
  | ModelError string string "string option"

text \<open>Primitive values. Numbers are integers here: identities and counts are.\<close>

datatype prim = Undefined | Null | Bool bool | Num int | Str string

section \<open>Grouping (src/unnamed/part_003)\<close>

text \<open>
  The type of a grouping, \<^verbatim>\<open>and\<close> or \<^verbatim>\<open>or\<close> (for any other string
  \<^verbatim>\<open>getWhere\<close> leaves the joined text undefined; the data model has these two).
\<close>

datatype gtype = And | Or

text \<open>
  What a grouping's \<^verbatim>\<open>value\<close> can hold: a primitive, an array, a plain object
  (its entries in the order of \<^verbatim>\<open>Object.entries\<close>), a \<^verbatim>\<open>Query\<close> (kept abstract
  as \<open>'q\<close>), a \<^verbatim>\<open>Grouping\<close> with its type and value, a \<^verbatim>\<open>Condition\<close> with its
  type, field and value, or a \<^verbatim>\<open>Raw\<close>.

  Modelled from the spec: \<^verbatim>\<open>Raw\<close> is missing from the sources; it is "an opaque SQL
  fragment plus its ordered parameter values", here \<open>GRaw sql values\<close>.
\<close>

datatype 'q gvalue =
    GPrim prim
  | GArr "'q gvalue list"
  | GObj "(string \<times> 'q gvalue) list"
  | GQuery 'q
  | GGrouping gtype "'q gvalue"
  | GCondition string "string option" "'q gvalue"
  | GRaw string "'q gvalue list"

record 'q rendering =
  r_where :: string
  r_values :: "'q gvalue list"

text \<open>\<^verbatim>\<open>Array.prototype.join\<close> on strings.\<close>

fun join :: "string \<Rightarrow> string list \<Rightarrow> string" where
  "join sep [] = []"
| "join sep [x] = x"
| "join sep (x # y # ys) = x @ sep @ join sep (y # ys)"

text \<open>
  The \<^verbatim>\<open>forEach\<close> of \<^verbatim>\<open>getWhere\<close> stops at the first item whose rendering
  throws.
\<close>

fun collect :: "(error + 'a) list \<Rightarrow> error + 'a list" where
  "collect [] = Inr []"
| "collect (Inl e # rs) = Inl e"
| "collect (Inr r # rs) = (case collect rs of Inl e \<Rightarrow> Inl e | Inr xs \<Rightarrow> Inr (r # xs))"

text \<open>
  The items of a grouping's value:
  \<^verbatim>\<open>if (!Array.isArray(value)) { value = [value]; }\<close>
\<close>

fun items :: "'q gvalue \<Rightarrow> 'q gvalue list" where
  "items (GArr xs) = xs"
| "items v = [v]"

text \<open>The separator of \<^verbatim>\<open>wheres.join\<close> for the grouping's type.\<close>

definition separator :: "gtype \<Rightarrow> string" where
  "separator t = (case t of And \<Rightarrow> '' AND '' | Or \<Rightarrow> '' OR '')"

text \<open>
  The end of \<^verbatim>\<open>getWhere\<close>, after its loop has filled \<^verbatim>\<open>wheres\<close> and
  \<^verbatim>\<open>values\<close> from the renderings \<open>rs\<close> of the items: the single rendering as it
  is, otherwise the joined text in parentheses.
\<close>

definition combine :: "gtype \<Rightarrow> 'q rendering list \<Rightarrow> 'q rendering" where
  "combine t rs =
     (let wheres = map r_where rs; vals = concat (map r_values rs)
      in if length wheres = 1 then \<lparr>r_where = hd wheres, r_values = vals\<rparr>
         else \<lparr>r_where = ''('' @ join (separator t) wheres @ '')'', r_values = vals\<rparr>)"

text \<open>
  The measure of the recursion of \<^verbatim>\<open>getWhere\<close>: it descends into arrays, groupings
  and plain objects only (a condition is rendered by \<^verbatim>\<open>Condition\<close>).
\<close>

fun weight :: "'q gvalue \<Rightarrow> nat" where
  "weight (GArr xs) = Suc (sum_list (map weight xs))"
| "weight (GGrouping t v) = Suc (weight v)"
| "weight (GObj kvs) = 2"
| "weight v = 0"

text \<open>
  \<^verbatim>\<open>Grouping.prototype.getWhere\<close> and \<^verbatim>\<open>Grouping.prototype._getWhere\<close>
  (\<open>priv_getWhere\<close>). \<^verbatim>\<open>Condition\<close> and \<^verbatim>\<open>Sql\<close> are not among the sources: \<open>cw\<close>
  stands for \<^verbatim>\<open>Condition.prototype.getWhere\<close> (given the condition's type, field and
  value) and \<open>gs\<close> for \<^verbatim>\<open>new Sql(query).getSelect()\<close>; both may throw.
\<close>

function getWhere ::
    "(string \<Rightarrow> string option \<Rightarrow> 'q gvalue \<Rightarrow> error + 'q rendering) \<Rightarrow>
     ('q \<Rightarrow> error + 'q rendering) \<Rightarrow> gtype \<Rightarrow> 'q gvalue \<Rightarrow> error + 'q rendering"
  and priv_getWhere ::
    "(string \<Rightarrow> string option \<Rightarrow> 'q gvalue \<Rightarrow> error + 'q rendering) \<Rightarrow>
     ('q \<Rightarrow> error + 'q rendering) \<Rightarrow> 'q gvalue \<Rightarrow> error + 'q rendering"
where
  "getWhere cw gs t v =
     (case collect (map (priv_getWhere cw gs) (items v)) of
        Inl e \<Rightarrow> Inl e
      | Inr rs \<Rightarrow> Inr (combine t rs))"
| "priv_getWhere cw gs (GQuery q) =
     (case gs q of
        Inl e \<Rightarrow> Inl e
      | Inr r \<Rightarrow> Inr \<lparr>r_where = ''('' @ r_where r @ '')'', r_values = r_values r\<rparr>)"
| "priv_getWhere cw gs (GGrouping t v) = getWhere cw gs t v"
| "priv_getWhere cw gs (GCondition ty f v) = cw ty f v"
| "priv_getWhere cw gs (GRaw sql vals) = Inr \<lparr>r_where = sql, r_values = vals\<rparr>"
| "priv_getWhere cw gs (GObj kvs) =
     getWhere cw gs And (GArr (map (\<lambda>(field, v). GCondition ''equalTo'' (Some field) v) kvs))"
| "priv_getWhere cw gs (GPrim Null) = Inl TypeError"
| "priv_getWhere cw gs (GPrim Undefined) = Inr \<lparr>r_where = ''?'', r_values = [GPrim Undefined]\<rparr>"
| "priv_getWhere cw gs (GPrim (Bool b)) = Inr \<lparr>r_where = ''?'', r_values = [GPrim (Bool b)]\<rparr>"
| "priv_getWhere cw gs (GPrim (Num n)) = Inr \<lparr>r_where = ''?'', r_values = [GPrim (Num n)]\<rparr>"
| "priv_getWhere cw gs (GPrim (Str s)) = Inr \<lparr>r_where = ''?'', r_values = [GPrim (Str s)]\<rparr>"
| "priv_getWhere cw gs (GArr xs) = Inr \<lparr>r_where = ''?'', r_values = [GArr xs]\<rparr>"
  by pat_completeness auto

lemma weight_items: "x \<in> set (items v) \<Longrightarrow> weight x \<le> weight v"
  by (cases v) (auto simp: member_le_sum_list le_SucI)

termination getWhere
  apply (relation "measure (\<lambda>x. case x of
           Inl (cw, gs, t, v) \<Rightarrow> 2 * weight v + 1
         | Inr (cw, gs, v) \<Rightarrow> 2 * weight v)")
  apply simp
  apply (simp add: weight_items le_imp_less_Suc)
  apply simp
  apply (auto split: prod.splits)
  done

section \<open>Query (src/Query.js)\<close>

subsection \<open>Values, objects and the heap\<close>

text \<open>\<^verbatim>\<open>String(v)\<close> for a primitive: template literals and property keys use it.\<close>

fun digits :: "nat \<Rightarrow> string" where
  "digits n = (if n < 10 then [''0123456789'' ! n]
               else digits (n div 10) @ [''0123456789'' ! (n mod 10)])"

definition prim_string :: "prim \<Rightarrow> string" where
  "prim_string p =
     (case p of
        Undefined \<Rightarrow> ''undefined''
      | Null \<Rightarrow> ''null''
      | Bool b \<Rightarrow> (if b then ''true'' else ''false'')
      | Num n \<Rightarrow> (if n < 0 then ''-'' @ digits (nat (- n)) else digits (nat n))
      | Str s \<Rightarrow> s)"

text \<open>
  A value held by a property: a primitive, a reference to an object of the heap, an
  array (the parser builds its arrays once and never mutates them, so they are values),
  or a built-in object of the runtime: \<open>Builtin k\<close> is the value that
  \<^verbatim>\<open>Object.prototype\<close> has for its standard property \<open>k\<close> (\<open>Builtin ''constructor''\<close>
  is the function \<^verbatim>\<open>Object\<close>, \<open>Builtin ''toString''\<close> the function
  \<^verbatim>\<open>Object.prototype.toString\<close>), and \<open>Builtin ''__proto__''\<close> is
  \<^verbatim>\<open>Object.prototype\<close> itself, which is what \<^verbatim>\<open>o.__proto__\<close> reads on a plain
  object. \<open>ClassOf name\<close> is the class of the model called \<open>name\<close>, which is what
  \<^verbatim>\<open>o.constructor\<close> reads on an instance of that model.

  An object of the heap has its kind and its own properties in the order they were set.
  A plain object is \<open>Plain\<close>, an instance of the model called \<open>name\<close> is
  \<open>Instance name\<close>, and \<open>Store k\<close> is the store of the built-in object \<open>Builtin k\<close>: the
  properties that the code has set on that built-in object, kept in the heap like the
  properties of any other object. The heap is the list of the objects made so far: an
  address is a position in it, and a new object goes last.
\<close>

datatype jsval = Prim prim | Ref nat | Arr "jsval list" | Builtin string | ClassOf string

datatype okind = Plain | Instance string | Store string

datatype jsobject = Object (o_kind: okind) (o_props: "(string \<times> jsval) list")

type_synonym heap = "jsobject list"

text \<open>\<^verbatim>\<open>o[k]\<close> on own properties: \<open>None\<close> when the object has none of that name.\<close>

definition getProp :: "(string \<times> 'v) list \<Rightarrow> string \<Rightarrow> 'v option" where
  "getProp ps k = map_of ps k"

text \<open>\<^verbatim>\<open>o[k] = v\<close>: an own property keeps its place, a new one goes last.\<close>

fun setProp :: "(string \<times> 'v) list \<Rightarrow> string \<Rightarrow> 'v \<Rightarrow> (string \<times> 'v) list" where
  "setProp [] k v = [(k, v)]"
| "setProp ((k', v') # ps) k v = (if k' = k then (k, v) # ps else (k', v') # setProp ps k v)"

text \<open>What \<^verbatim>\<open>if (v)\<close> takes for true.\<close>

fun truthy :: "jsval \<Rightarrow> bool" where
  "truthy (Prim Undefined) = False"
| "truthy (Prim Null) = False"
| "truthy (Prim (Bool b)) = b"
| "truthy (Prim (Num n)) = (n \<noteq> 0)"
| "truthy (Prim (Str s)) = (s \<noteq> [])"
| "truthy (Ref a) = True"
| "truthy (Arr xs) = True"
| "truthy (Builtin k) = True"
| "truthy (ClassOf n) = True"

text \<open>
  The property key a value turns into (\<^verbatim>\<open>memo[id]\<close>). A built-in function prints
  as its source text, under its own name (\<^verbatim>\<open>Object\<close> for the constructor), and a
  class as its declaration (the tests declare \<^verbatim>\<open>class User extends Model {}\<close>).
\<close>

definition builtin_string :: "string \<Rightarrow> string" where
  "builtin_string k =
     (if k = ''__proto__'' then ''[object Object]''
      else ''function '' @ (if k = ''constructor'' then ''Object'' else k) @ ''() { [native code] }'')"

fun js_string :: "jsval \<Rightarrow> string"
  and js_element :: "jsval \<Rightarrow> string"
where
  "js_string (Prim p) = prim_string p"
| "js_string (Ref a) = ''[object Object]''"
| "js_string (Arr xs) = join '','' (map js_element xs)"
| "js_string (Builtin k) = builtin_string k"
| "js_string (ClassOf n) = ''class '' @ n @ '' extends Model {}''"
| "js_element (Prim p) = (if p = Null \<or> p = Undefined then [] else prim_string p)"
| "js_element (Ref a) = ''[object Object]''"
| "js_element (Arr xs) = join '','' (map js_element xs)"
| "js_element (Builtin k) = builtin_string k"
| "js_element (ClassOf n) = ''class '' @ n @ '' extends Model {}''"

text \<open>
  The names of the properties that every plain object, and every instance, inherits from
  \<^verbatim>\<open>Object.prototype\<close>. Their values are objects, so they are truthy.
\<close>

definition objectPrototypeKeys :: "string list" where
  "objectPrototypeKeys =
     [''constructor'', ''__defineGetter__'', ''__defineSetter__'', ''hasOwnProperty'',
      ''__lookupGetter__'', ''__lookupSetter__'', ''isPrototypeOf'', ''propertyIsEnumerable'',
      ''toString'', ''valueOf'', ''__proto__'', ''toLocaleString'']"

text \<open>The properties that the code has set on the built-in object \<open>Builtin k\<close>.\<close>

definition builtinProps :: "heap \<Rightarrow> string \<Rightarrow> (string \<times> jsval) list" where
  "builtinProps h k = (case find (\<lambda>ob. o_kind ob = Store k) h of None \<Rightarrow> [] | Some ob \<Rightarrow> o_props ob)"

fun setStored :: "heap \<Rightarrow> string \<Rightarrow> string \<Rightarrow> jsval \<Rightarrow> heap" where
  "setStored [] k name v = [Object (Store k) [(name, v)]]"
| "setStored (ob # h) k name v =
     (if o_kind ob = Store k then Object (Store k) (setProp (o_props ob) name v) # h
      else ob # setStored h k name v)"

text \<open>
  \<^verbatim>\<open>o[k]\<close> for a key that \<open>o\<close> does not own, when \<open>o\<close> inherits from
  \<^verbatim>\<open>Object.prototype\<close>: the prototype object for \<^verbatim>\<open>__proto__\<close> (an accessor), what
  the code has set on \<^verbatim>\<open>Object.prototype\<close> under that key if it has, the built-in
  value of a standard key, and \<^verbatim>\<open>undefined\<close> otherwise.
\<close>

definition inherited :: "heap \<Rightarrow> string \<Rightarrow> jsval" where
  "inherited h k =
     (if k = ''__proto__'' then Builtin ''__proto__''
      else case getProp (builtinProps h ''__proto__'') k of
             Some v \<Rightarrow> v
           | None \<Rightarrow> if k \<in> set objectPrototypeKeys then Builtin k else Prim Undefined)"

text \<open>
  \<^verbatim>\<open>o[k]\<close> on an object with the own properties \<open>ps\<close> that inherits from
  \<^verbatim>\<open>Object.prototype\<close>: a plain object, such as the dictionaries \<^verbatim>\<open>_parsedData\<close>
  and \<^verbatim>\<open>data\<close>, or an instance.
\<close>

definition lookup :: "heap \<Rightarrow> (string \<times> jsval) list \<Rightarrow> string \<Rightarrow> jsval" where
  "lookup h ps k = (case getProp ps k of Some v \<Rightarrow> v | None \<Rightarrow> inherited h k)"

text \<open>
  \<^verbatim>\<open>v[k]\<close> on any value: a type error on \<^verbatim>\<open>undefined\<close> and \<^verbatim>\<open>null\<close>. An
  instance finds its class under \<^verbatim>\<open>constructor\<close> before it reaches
  \<^verbatim>\<open>Object.prototype\<close>. Of a primitive, an array, a built-in function and a class,
  the properties that come with their own classes (\<^verbatim>\<open>length\<close>, the methods of
  \<^verbatim>\<open>Function.prototype\<close>, the statics of a model) are left out: what is read is what
  the code has set and what \<^verbatim>\<open>Object.prototype\<close> gives.
\<close>

fun readValue :: "heap \<Rightarrow> jsval \<Rightarrow> string \<Rightarrow> error + jsval" where
  "readValue h (Prim p) k = (if p = Undefined \<or> p = Null then Inl TypeError else Inr (inherited h k))"
| "readValue h (Ref a) k =
     Inr (case o_kind (h ! a) of
            Instance n \<Rightarrow>
              (if k = ''constructor'' \<and> getProp (o_props (h ! a)) k = None then ClassOf n
               else lookup h (o_props (h ! a)) k)
          | _ \<Rightarrow> lookup h (o_props (h ! a)) k)"
| "readValue h (Arr xs) k = Inr (inherited h k)"
| "readValue h (Builtin b) k =
     Inr (if b = ''__proto__'' \<and> k = ''__proto__'' then Prim Null else lookup h (builtinProps h b) k)"
| "readValue h (ClassOf n) k = Inr (inherited h k)"

text \<open>
  \<^verbatim>\<open>v[k] = x\<close> in the strict mode of a class body. On a primitive it is a type error.
  On an object it sets an own property, but for the key \<^verbatim>\<open>__proto__\<close>, an accessor
  that sets no property (the change of prototype that it makes when \<open>x\<close> is an object is
  left out; \<^verbatim>\<open>Object.prototype\<close> refuses it with a type error). The \<^verbatim>\<open>name\<close> and
  \<^verbatim>\<open>length\<close> of a built-in function, and the \<^verbatim>\<open>prototype\<close> of \<^verbatim>\<open>Object\<close>, are
  read-only. A property set on an array or on a class is left out.
\<close>

fun nonPrimitive :: "jsval \<Rightarrow> bool" where
  "nonPrimitive (Prim p) = False"
| "nonPrimitive v = True"

fun writeValue :: "heap \<Rightarrow> jsval \<Rightarrow> string \<Rightarrow> jsval \<Rightarrow> error + heap" where
  "writeValue h (Prim p) k x = Inl TypeError"
| "writeValue h (Ref a) k x =
     Inr (if k = ''__proto__'' then h
          else h[a := Object (o_kind (h ! a)) (setProp (o_props (h ! a)) k x)])"
| "writeValue h (Arr xs) k x = Inr h"
| "writeValue h (ClassOf n) k x = Inr h"
| "writeValue h (Builtin b) k x =
     (if k = ''__proto__'' then (if b = ''__proto__'' \<and> nonPrimitive x then Inl TypeError else Inr h)
      else if b \<noteq> ''__proto__'' \<and> (k = ''name'' \<or> k = ''length'') then Inl TypeError
      else if b = ''constructor'' \<and> k = ''prototype'' then Inl TypeError
      else Inr (setStored h b k x))"

subsection \<open>Fields, models and the state of a query\<close>

text \<open>
  Modelled from the spec: \<^verbatim>\<open>Field\<close> and \<^verbatim>\<open>Model\<close> are missing from the sources.
  The records hold what \<^verbatim>\<open>Query\<close> reads of them: of a field its name, its storage
  column name, the name of its model, the column of the field it references
  (\<^verbatim>\<open>field.references.column\<close>) and its default (\<^verbatim>\<open>hasDefault()\<close> when there is
  one); of a model its name, its table, the name of its identity field, its ordered field
  map, its \<^verbatim>\<open>referenced\<close> map (by model name, then by the name of the field referenced,
  the fields that reference it) and the names of its timestamp fields.
\<close>

record field =
  f_name :: string
  f_column :: string
  f_model :: string
  f_references :: "string option"
  f_default :: "prim option"

record model =
  m_name :: string
  m_table :: "string option"
  m_idField :: string
  m_fields :: "(string \<times> field) list"
  m_referenced :: "(string \<times> (string \<times> field list) list) list"
  m_updatedAtField :: "string option"
  m_createdAtField :: "string option"

text \<open>The value of a \<^verbatim>\<open>where\<close> or \<^verbatim>\<open>having\<close> entry: a primitive, an array, or an
  object \<^verbatim>\<open>{ operator, value }\<close>.\<close>

datatype wvalue = WPrim prim | WArr "prim list" | WOp prim prim

text \<open>
  The state of a query. A flag that the constructor leaves undefined (\<^verbatim>\<open>_require\<close>,
  \<^verbatim>\<open>_first\<close>, \<^verbatim>\<open>isChild\<close>, \<^verbatim>\<open>_hasFields\<close>, \<^verbatim>\<open>_hasReturning\<close>) is \<open>False\<close>;
  \<open>q_forge\<close> is \<open>False\<close> only after \<^verbatim>\<open>forge(false)\<close> (the parser tests
  \<^verbatim>\<open>_forge === false\<close>). An entry of \<^verbatim>\<open>_fields\<close>, \<^verbatim>\<open>_returning\<close>, \<^verbatim>\<open>_groupBy\<close>
  or \<^verbatim>\<open>_on\<close> is a field with its alias, if any. \<open>q_parsedData\<close> is the memo
  \<^verbatim>\<open>_parsedData\<close>, a plain object used as a dictionary: the list of its own properties,
  from identity keys to records (it is read with \<open>lookup\<close>, which also finds what a plain
  object inherits). \<open>q_parsedRows\<close> is the output list \<^verbatim>\<open>_parsedRows\<close>. \<open>q_parent\<close> is
  the name of the parent's model.
\<close>

record qstate =
  q_model :: model
  q_table :: string
  q_alias :: string
  q_index :: nat
  q_fields :: "(field \<times> string option) list"
  q_returning :: "(field \<times> string option) list"
  q_orderBy :: "(field \<times> prim) list"
  q_groupBy :: "(field \<times> string option) list"
  q_on :: "(field \<times> string option) list"
  q_where :: "(field \<times> wvalue) list"
  q_whereNot :: "(field \<times> wvalue) list"
  q_orWhere :: "(field \<times> wvalue) list"
  q_orWhereNot :: "(field \<times> wvalue) list"
  q_having :: "(field \<times> wvalue) list"
  q_havingNot :: "(field \<times> wvalue) list"
  q_orHaving :: "(field \<times> wvalue) list"
  q_orHavingNot :: "(field \<times> wvalue) list"
  q_parsedRows :: "jsval list"
  q_parsedData :: "(string \<times> jsval) list"
  q_hasFields :: bool
  q_hasReturning :: bool
  q_transaction :: "(string \<times> bool \<times> bool) option"
  q_require :: bool
  q_limit :: "int option"
  q_offset :: "int option"
  q_first :: bool
  q_forge :: bool
  q_as :: "string option"
  q_isChild :: bool
  q_parent :: "string option"

text \<open>A query and the queries joined to it (\<^verbatim>\<open>this._with\<close>).\<close>

datatype query = Query (q_state: qstate) (q_with: "query list")

subsection \<open>Parsing rows\<close>

text \<open>A result row: its columns, in the order of \<^verbatim>\<open>Object.keys\<close>, with their values.\<close>

type_synonym row = "(string \<times> prim) list"

text \<open>\<^verbatim>\<open>column.split('.')\<close>, then \<^verbatim>\<open>pair[0]\<close> and \<^verbatim>\<open>pair[1]\<close> (as a property key).\<close>

definition splitColumn :: "string \<Rightarrow> string \<times> string" where
  "splitColumn column =
     (let alias = takeWhile (\<lambda>c. c \<noteq> CHR ''.'') column;
          rest = dropWhile (\<lambda>c. c \<noteq> CHR ''.'') column
      in (alias, if rest = [] then ''undefined'' else takeWhile (\<lambda>c. c \<noteq> CHR ''.'') (tl rest)))"

text \<open>
  The \<^verbatim>\<open>reduce\<close> of \<^verbatim>\<open>_parseRows\<close> over the columns of a row, on the own
  properties of the dictionary \<^verbatim>\<open>data\<close>:
  \<^verbatim>\<open>data[alias] = data[alias] || {}; data[alias][field] = value\<close>. The bag of an alias
  is a new plain object unless \<^verbatim>\<open>data[alias]\<close> is truthy already, own or inherited;
  assigning to \<^verbatim>\<open>data.__proto__\<close> sets no own property.
\<close>

fun buildData ::
    "row \<Rightarrow> (string \<times> jsval) list \<Rightarrow> heap \<Rightarrow> error + ((string \<times> jsval) list \<times> heap)" where
  "buildData [] data h = Inr (data, h)"
| "buildData ((column, v) # row) data h =
     (let alias = fst (splitColumn column);
          field = snd (splitColumn column);
          old = lookup h data alias;
          bag = (if truthy old then old else Ref (length h));
          h1 = (if truthy old then h else h @ [Object Plain []]);
          data1 = (if alias = ''__proto__'' then data else setProp data alias bag)
      in case writeValue h1 bag field (Prim v) of
           Inl e \<Rightarrow> Inl e
         | Inr h2 \<Rightarrow> buildData row data1 h2)"

text \<open>
  \<^verbatim>\<open>Object.values(v)\<close>: the values of the own enumerable properties. It is a type
  error on \<^verbatim>\<open>undefined\<close> and \<^verbatim>\<open>null\<close>; a string has its characters, an array its
  elements, a built-in object what the code has set on it (the statics of a class are
  left out).
\<close>

fun objectValues :: "heap \<Rightarrow> jsval \<Rightarrow> error + jsval list" where
  "objectValues h (Prim p) =
     (if p = Undefined \<or> p = Null then Inl TypeError
      else Inr (case p of Str s \<Rightarrow> map (\<lambda>c. Prim (Str [c])) s | _ \<Rightarrow> []))"
| "objectValues h (Ref a) = Inr (map snd (o_props (h ! a)))"
| "objectValues h (Arr xs) = Inr xs"
| "objectValues h (Builtin b) = Inr (map snd (builtinProps h b))"
| "objectValues h (ClassOf n) = Inr []"

text \<open>\<^verbatim>\<open>Query.prototype._hasData\<close>\<close>

definition hasData :: "query \<Rightarrow> (string \<times> jsval) list \<Rightarrow> heap \<Rightarrow> error + bool" where
  "hasData q data h =
     (case objectValues h (lookup h data (q_alias (q_state q))) of
        Inl e \<Rightarrow> Inl e
      | Inr vs \<Rightarrow> Inr (list_ex (\<lambda>v. v \<noteq> Prim Null) vs))"

text \<open>
  The two branches of \<^verbatim>\<open>if (parsedData[query._as])\<close> on the record \<open>p\<close>, for the
  nested record \<open>n\<close>.
\<close>

definition attach :: "heap \<Rightarrow> jsval \<Rightarrow> string \<Rightarrow> jsval \<Rightarrow> error + heap" where
  "attach h p key n =
     (case readValue h p key of
        Inl e \<Rightarrow> Inl e
      | Inr old \<Rightarrow> writeValue h p key (if truthy old then Arr [old, n] else n))"

text \<open>\<^verbatim>\<open>query._as\<close> as a property key.\<close>

definition as_key :: "query \<Rightarrow> string" where
  "as_key q = (case q_as (q_state q) of None \<Rightarrow> ''undefined'' | Some k \<Rightarrow> k)"

text \<open>
  Modelled from the spec: the \<^verbatim>\<open>Model\<close> constructor is missing from the sources; it
  "builds a typed record from a scalar bag": \<^verbatim>\<open>new this.model(instanceData)\<close> is a
  new object of the model's class with the bag's own properties (none for a bag that is
  not an object). What an instance inherits from its class, besides what
  \<^verbatim>\<open>Object.prototype\<close> gives, is not known.
\<close>

fun ownProps :: "heap \<Rightarrow> jsval \<Rightarrow> (string \<times> jsval) list" where
  "ownProps h (Ref a) = o_props (h ! a)"
| "ownProps h (Builtin b) = builtinProps h b"
| "ownProps h v = []"

definition newInstance :: "model \<Rightarrow> (string \<times> jsval) list \<Rightarrow> jsobject" where
  "newInstance m instanceData = Object (Instance (m_name m)) instanceData"

text \<open>
  The head of \<^verbatim>\<open>Query.prototype._parseData\<close>: the record of the row's identity, with
  the state and the heap once it is filed. \<^verbatim>\<open>this._parsedData[id]\<close> reads the memo as
  the plain object it is: when it is truthy, be it a record filed before or a value that
  the memo inherits, no record is made and nothing is filed. With \<^verbatim>\<open>forge\<close> disabled
  the record is the bag \<^verbatim>\<open>data[this.alias]\<close> itself.
\<close>

definition parseOwn ::
    "qstate \<Rightarrow> (string \<times> jsval) list \<Rightarrow> heap \<Rightarrow> error + (jsval \<times> qstate \<times> heap)" where
  "parseOwn s data h =
     (let instanceData = lookup h data (q_alias s)
      in case readValue h instanceData (m_idField (q_model s)) of
           Inl e \<Rightarrow> Inl e
         | Inr idv \<Rightarrow>
             (let key = js_string idv; found = lookup h (q_parsedData s) key
              in if truthy found then Inr (found, s, h)
                 else
                   (let parsedData = (if q_forge s then Ref (length h) else instanceData);
                        h1 = (if q_forge s
                              then h @ [newInstance (q_model s) (ownProps h instanceData)]
                              else h)
                    in Inr (parsedData,
                            s\<lparr>q_parsedData := setProp (q_parsedData s) key parsedData,
                              q_parsedRows := q_parsedRows s @ [parsedData]\<rparr>,
                            h1))))"

text \<open>
  \<^verbatim>\<open>Query.prototype._parseData\<close>, returning \<^verbatim>\<open>parsedData\<close>; \<open>parseWith\<close> is its
  \<^verbatim>\<open>this._with.forEach\<close> over the record \<open>p\<close>.
\<close>

fun parseData ::
    "query \<Rightarrow> (string \<times> jsval) list \<Rightarrow> heap \<Rightarrow> error + (jsval \<times> query \<times> heap)"
  and parseWith ::
    "query list \<Rightarrow> (string \<times> jsval) list \<Rightarrow> jsval \<Rightarrow> heap \<Rightarrow> error + (query list \<times> heap)"
where
  "parseData (Query s ws) data h =
     (case parseOwn s data h of
        Inl e \<Rightarrow> Inl e
      | Inr (p, s1, h1) \<Rightarrow>
          (case parseWith ws data p h1 of
             Inl e \<Rightarrow> Inl e
           | Inr (ws', h') \<Rightarrow> Inr (p, Query s1 ws', h')))"
| "parseWith [] data p h = Inr ([], h)"
| "parseWith (q # qs) data p h =
     (case hasData q data h of
        Inl e \<Rightarrow> Inl e
      | Inr False \<Rightarrow>
          (case parseWith qs data p h of
             Inl e \<Rightarrow> Inl e
           | Inr (qs', h') \<Rightarrow> Inr (q # qs', h'))
      | Inr True \<Rightarrow>
          (case parseData q data h of
             Inl e \<Rightarrow> Inl e
           | Inr (n, q', h1) \<Rightarrow>
               (case attach h1 p (as_key q) n of
                  Inl e \<Rightarrow> Inl e
                | Inr h2 \<Rightarrow>
                    (case parseWith qs data p h2 of
                       Inl e \<Rightarrow> Inl e
                     | Inr (qs', h') \<Rightarrow> Inr (q' # qs', h')))))"

text \<open>
  \<^verbatim>\<open>Query.prototype._parseRows\<close>: the output list, with the query and the heap after
  the rows.
\<close>

fun parseRows :: "query \<Rightarrow> row list \<Rightarrow> heap \<Rightarrow> error + (jsval list \<times> query \<times> heap)" where
  "parseRows q [] h = Inr (q_parsedRows (q_state q), q, h)"
| "parseRows q (row # rows) h =
     (case buildData row [] h of
        Inl e \<Rightarrow> Inl e
      | Inr (data, h1) \<Rightarrow>
          (case parseData q data h1 of
             Inl e \<Rightarrow> Inl e
           | Inr (p, q', h2) \<Rightarrow> parseRows q' rows h2))"
subsection \<open>The statement builder\<close>

text \<open>
  The knex builder is a collaborator: the model keeps the calls made on it, in order. A
  joined query shares its parent's builder (\<^verbatim>\<open>query.builder = this.builder\<close>), so
  one log is threaded through a compilation.
\<close>

datatype barg =
    AStr string
  | AVal prim
  | AVals "prim list"
  | ACols "string list"
  | AMap "(string \<times> string) list"
  | ARow "(string \<times> prim) list"

datatype bcall = Call string "barg list"

record options =
  forInsert :: bool
  forUpdate :: bool
  forDelete :: bool
  includeFields :: bool

definition no_options :: options where
  "no_options = \<lparr>forInsert = False, forUpdate = False, forDelete = False, includeFields = True\<rparr>"

text \<open>\<^verbatim>\<open>Query.prototype._getColumn\<close> and \<^verbatim>\<open>_getColumns\<close>\<close>

definition getColumn :: "qstate \<Rightarrow> field \<Rightarrow> string option \<Rightarrow> string" where
  "getColumn s field as =
     (let column = q_alias s @ ''.'' @ f_column field
      in case as of
           None \<Rightarrow> column
         | Some a \<Rightarrow> (if a = [] then column else column @ '' as '' @ q_alias s @ ''.'' @ a))"

definition getColumns :: "qstate \<Rightarrow> (field \<times> string option) list \<Rightarrow> string list" where
  "getColumns s fs = map (\<lambda>(field, as). getColumn s field as) fs"

definition addTransaction :: "string \<times> bool \<times> bool \<Rightarrow> bcall list" where
  "addTransaction tx =
     (case tx of (transaction, forUpd, forShr) \<Rightarrow>
        [Call ''transacting'' [AStr transaction]]
        @ (if forUpd then [Call ''forUpdate'' []] else [])
        @ (if forShr then [Call ''forShare'' []] else []))"

definition addFields :: "qstate \<Rightarrow> bcall list" where
  "addFields s = [Call ''columns'' [ACols (getColumns s (q_fields s))]]"

definition addReturning :: "qstate \<Rightarrow> bcall list" where
  "addReturning s = [Call ''returning'' [ACols (getColumns s (q_returning s))]]"

text \<open>One entry of \<^verbatim>\<open>Query.prototype._addWhereOrHaving(key)\<close>.\<close>

definition whereOrHavingCall :: "qstate \<Rightarrow> string \<Rightarrow> field \<times> wvalue \<Rightarrow> bcall" where
  "whereOrHavingCall s key entry =
     (case entry of (field, v) \<Rightarrow>
        (let column = getColumn s field None
         in case v of
              WPrim Null \<Rightarrow> Call (key @ ''Null'') [AStr column]
            | WArr xs \<Rightarrow> Call (key @ ''In'') [AStr column, AVals xs]
            | WOp operator x \<Rightarrow> Call key [AStr column, AVal operator, AVal x]
            | WPrim p \<Rightarrow>
                (if key \<in> {''having'', ''havingNot'', ''orHaving'', ''orHavingNot''}
                 then Call key [AStr column, AVal (Str ''=''), AVal p]
                 else Call key [AStr column, AVal p])))"

definition addWhereOrHaving :: "qstate \<Rightarrow> string \<Rightarrow> (field \<times> wvalue) list \<Rightarrow> bcall list" where
  "addWhereOrHaving s key entries = map (whereOrHavingCall s key) entries"

definition addOrderBy :: "qstate \<Rightarrow> bcall list" where
  "addOrderBy s =
     map (\<lambda>(field, direction). Call ''orderBy'' [AStr (getColumn s field None), AVal direction])
       (q_orderBy s)"

definition addGroupBy :: "qstate \<Rightarrow> bcall list" where
  "addGroupBy s = [Call ''groupBy'' [ACols (getColumns s (q_groupBy s))]]"

text \<open>\<^verbatim>\<open>Query.prototype._getFieldsWithAliases\<close>\<close>

definition getFieldsWithAliases :: "qstate \<Rightarrow> (field \<times> string option) list" where
  "getFieldsWithAliases s = map (\<lambda>(name, field). (field, Some (f_name field))) (m_fields (q_model s))"

text \<open>
  The \<^verbatim>\<open>on\<close> fields of a join in \<^verbatim>\<open>_addWith\<close>: \<open>s\<close> is the parent, \<open>c\<close> the joined
  query. Spreading \<^verbatim>\<open>undefined\<close> and \<^verbatim>\<open>Object.values(undefined)\<close> are type errors.
\<close>

fun spreadAll :: "'a list option list \<Rightarrow> error + 'a list" where
  "spreadAll [] = Inr []"
| "spreadAll (None # xs) = Inl TypeError"
| "spreadAll (Some fs # xs) = (case spreadAll xs of Inl e \<Rightarrow> Inl e | Inr ys \<Rightarrow> Inr (fs @ ys))"

definition joinOn :: "qstate \<Rightarrow> qstate \<Rightarrow> error + field list" where
  "joinOn s c =
     (let forwardReferences = getProp (m_referenced (q_model s)) (m_name (q_model c));
          reverseReferences = getProp (m_referenced (q_model c)) (m_name (q_model s))
      in if q_on c \<noteq> [] then
           (case reverseReferences of
              Some rr \<Rightarrow> spreadAll (map (\<lambda>(field, as). getProp rr (f_name field)) (q_on c))
            | None \<Rightarrow> Inr (map fst (q_on c)))
         else
           (case forwardReferences of
              Some fr \<Rightarrow> Inr (concat (map snd fr))
            | None \<Rightarrow>
                (case reverseReferences of
                   Some rr \<Rightarrow> Inr (concat (map snd rr))
                 | None \<Rightarrow> Inl TypeError)))"

text \<open>The \<^verbatim>\<open>on.reduce\<close> of \<^verbatim>\<open>_addWith\<close>.\<close>

fun onColumns :: "qstate \<Rightarrow> qstate \<Rightarrow> field list \<Rightarrow> (string \<times> string) list \<Rightarrow> error + (string \<times> string) list" where
  "onColumns s c [] columns = Inr columns"
| "onColumns s c (field # fs) columns =
     (case f_references field of
        None \<Rightarrow> Inl TypeError
      | Some toColumn \<Rightarrow>
          (let fromColumn = f_column field
           in if getProp (m_referenced (q_model c)) (m_name (q_model s)) \<noteq> None
              then onColumns s c fs
                     (setProp columns (q_alias c @ ''.'' @ toColumn) (q_alias s @ ''.'' @ fromColumn))
              else onColumns s c fs
                     (setProp columns (q_alias c @ ''.'' @ fromColumn) (q_alias s @ ''.'' @ toColumn))))"

text \<open>
  \<^verbatim>\<open>Query.prototype._prepareBuilder\<close>, in three parts. \<open>prepareBefore\<close> is the body up
  to the joins: \<open>Inl\<close> is an early \<^verbatim>\<open>return this\<close> (insert, update, delete), \<open>Inr\<close>
  goes on to \<^verbatim>\<open>_addWith\<close>.
\<close>

definition prepareBefore :: "options \<Rightarrow> qstate \<Rightarrow> bcall list \<Rightarrow> (qstate \<times> bcall list) + (qstate \<times> bcall list)" where
  "prepareBefore opts s log =
     (let log1 = (if \<not> q_isChild s
                  then (case q_transaction s of Some tx \<Rightarrow> log @ addTransaction tx | None \<Rightarrow> log)
                  else log);
          writes = (forInsert opts \<or> forUpdate opts \<or> forDelete opts);
          s1 = (if writes \<and> \<not> q_hasReturning s then s\<lparr>q_returning := getFieldsWithAliases s\<rparr> else s);
          log2 = (if writes then log1 @ addReturning s1 else log1)
      in if forInsert opts then Inl (s1, log2)
         else
          (let log3 = log2
                 @ (if q_where s1 \<noteq> [] then addWhereOrHaving s1 ''where'' (q_where s1) else [])
                 @ (if q_whereNot s1 \<noteq> [] then addWhereOrHaving s1 ''whereNot'' (q_whereNot s1) else [])
                 @ (if q_orWhere s1 \<noteq> [] then addWhereOrHaving s1 ''orWhere'' (q_orWhere s1) else [])
                 @ (if q_orWhereNot s1 \<noteq> [] then addWhereOrHaving s1 ''orWhereNot'' (q_orWhereNot s1) else [])
           in if forUpdate opts \<or> forDelete opts then Inl (s1, log3)
              else
               (let s2 = (if includeFields opts \<and> \<not> q_hasFields s1
                          then s1\<lparr>q_fields := getFieldsWithAliases s1\<rparr> else s1);
                    log4 = (if includeFields opts then log3 @ addFields s2 else log3)
                in Inr (s2, log4))))"

text \<open>\<open>prepareAfter\<close> is the body after the joins.\<close>

definition prepareAfter :: "qstate \<Rightarrow> bcall list \<Rightarrow> qstate \<times> bcall list" where
  "prepareAfter s log =
     (let log1 = log
            @ (if q_groupBy s \<noteq> [] then addGroupBy s else [])
            @ (if q_having s \<noteq> [] then addWhereOrHaving s ''having'' (q_having s) else [])
            @ (if q_havingNot s \<noteq> [] then addWhereOrHaving s ''havingNot'' (q_havingNot s) else [])
            @ (if q_orHaving s \<noteq> [] then addWhereOrHaving s ''orHaving'' (q_orHaving s) else [])
            @ (if q_orHavingNot s \<noteq> [] then addWhereOrHaving s ''orHavingNot'' (q_orHavingNot s) else [])
            @ (if q_orderBy s \<noteq> [] then addOrderBy s else [])
      in if q_isChild s then (s, log1)
         else
          (let s1 = (if q_first s then s\<lparr>q_limit := Some 1\<rparr> else s);
               log2 = log1
                 @ (case q_limit s1 of Some n \<Rightarrow> [Call ''limit'' [AVal (Num n)]] | None \<Rightarrow> [])
                 @ (case q_offset s1 of Some n \<Rightarrow> [Call ''offset'' [AVal (Num n)]] | None \<Rightarrow> [])
           in (s1, log2)))"

text \<open>
  What \<^verbatim>\<open>_addWith\<close> sets on a joined query \<open>c\<close> before it joins it: \<open>s\<close> is
  \<^verbatim>\<open>this\<close> after \<^verbatim>\<open>++this.index\<close>, \<open>cc\<close> is lodash's \<^verbatim>\<open>camelCase\<close>.
\<close>

definition joined :: "(string \<Rightarrow> string) \<Rightarrow> qstate \<Rightarrow> qstate \<Rightarrow> qstate" where
  "joined cc s c =
     (let c1 = (if q_as c = None \<or> q_as c = Some [] then c\<lparr>q_as := Some (cc (m_name (q_model c)))\<rparr> else c)
      in c1\<lparr>q_index := q_index s, q_alias := ''t'' @ digits (q_index s)\<rparr>)"

text \<open>The builder call of one join, or the type error of its \<^verbatim>\<open>on\<close> columns.\<close>

definition joinCall :: "qstate \<Rightarrow> qstate \<Rightarrow> error + bcall" where
  "joinCall s c =
     (case joinOn s c of
        Inl e \<Rightarrow> Inl e
      | Inr on \<Rightarrow>
          (case onColumns s c on [] of
             Inl e \<Rightarrow> Inl e
           | Inr columns \<Rightarrow>
               Inr (Call (if q_require c then ''innerJoin'' else ''leftJoin'')
                      [AStr (q_table c @ '' as '' @ q_alias c), AMap columns])))"

text \<open>
  \<^verbatim>\<open>Query.prototype._prepareBuilder\<close> and \<^verbatim>\<open>Query.prototype._addWith\<close>. \<open>addWith\<close>
  runs the \<^verbatim>\<open>forEach\<close> over the joined queries still to do; \<open>s\<close> is \<^verbatim>\<open>this\<close>,
  whose \<^verbatim>\<open>index\<close> each turn increments.
\<close>

fun prepareBuilder :: "(string \<Rightarrow> string) \<Rightarrow> options \<Rightarrow> query \<Rightarrow> bcall list \<Rightarrow> error + (query \<times> bcall list)"
  and addWith :: "(string \<Rightarrow> string) \<Rightarrow> options \<Rightarrow> qstate \<Rightarrow> query list \<Rightarrow> bcall list \<Rightarrow>
                  error + (qstate \<times> query list \<times> bcall list)"
where
  "prepareBuilder cc opts (Query s ws) log =
     (case prepareBefore opts s log of
        Inl (s1, log1) \<Rightarrow> Inr (Query s1 ws, log1)
      | Inr (s2, log2) \<Rightarrow>
          (case (if ws \<noteq> [] then addWith cc opts s2 ws log2 else Inr (s2, ws, log2)) of
             Inl e \<Rightarrow> Inl e
           | Inr (s3, ws', log3) \<Rightarrow>
               (case prepareAfter s3 log3 of (s4, log4) \<Rightarrow> Inr (Query s4 ws', log4))))"
| "addWith cc opts s [] log = Inr (s, [], log)"
| "addWith cc opts s (Query c cws # qs) log =
     (let s' = s\<lparr>q_index := q_index s + 1\<rparr>;
          c' = joined cc s' c
      in case joinCall s' c' of
           Inl e \<Rightarrow> Inl e
         | Inr call \<Rightarrow>
             (case prepareBuilder cc opts (Query c' cws) (log @ [call]) of
                Inl e \<Rightarrow> Inl e
              | Inr (q', log') \<Rightarrow>
                  (case addWith cc opts s' qs log' of
                     Inl e \<Rightarrow> Inl e
                   | Inr (s'', qs', log'') \<Rightarrow> Inr (s'', q' # qs', log''))))"

subsection \<open>Building queries\<close>

text \<open>A string between single quotes, as the error messages have names.\<close>

definition quoted :: "string \<Rightarrow> string" where
  "quoted s = [CHR 0x27] @ s @ [CHR 0x27]"

text \<open>The constructor. Reading \<^verbatim>\<open>idField.name\<close> of a missing field is a type error.\<close>

definition newQuery :: "model \<Rightarrow> error + query" where
  "newQuery m =
     (case m_table m of
        None \<Rightarrow> Inl (Error (quoted (m_name m @ ''.table'') @ '' is not configured''))
      | Some t \<Rightarrow>
          (if t = [] then Inl (Error (quoted (m_name m @ ''.table'') @ '' is not configured''))
           else
            (case getProp (m_fields m) (m_idField m) of
               None \<Rightarrow> Inl TypeError
             | Some idField \<Rightarrow>
                 Inr (Query
                   \<lparr>q_model = m, q_table = t, q_alias = t, q_index = 0,
                    q_fields = [(idField, Some (f_name idField))],
                    q_returning = [(idField, Some (f_name idField))],
                    q_orderBy = [], q_groupBy = [], q_on = [],
                    q_where = [], q_whereNot = [], q_orWhere = [], q_orWhereNot = [],
                    q_having = [], q_havingNot = [], q_orHaving = [], q_orHavingNot = [],
                    q_parsedRows = [], q_parsedData = [],
                    q_hasFields = False, q_hasReturning = False, q_transaction = None,
                    q_require = False, q_limit = None, q_offset = None, q_first = False,
                    q_forge = True, q_as = None, q_isChild = False, q_parent = None\<rparr> []))))"

text \<open>\<^verbatim>\<open>Query.prototype.with\<close> (also \<^verbatim>\<open>join\<close>), for an array of queries and no options.\<close>

fun withQ :: "query \<Rightarrow> query list \<Rightarrow> error + query" where
  "withQ q [] = Inr q"
| "withQ (Query s ws) (Query c cws # qs) =
     (if getProp (m_referenced (q_model s)) (m_name (q_model c)) = None \<and>
         getProp (m_referenced (q_model c)) (m_name (q_model s)) = None
      then Inl (Error (quoted (m_name (q_model s)) @ '' has no references to '' @ quoted (m_name (q_model c))))
      else withQ (Query s (ws @ [Query (c\<lparr>q_isChild := True, q_parent := Some (m_name (q_model s))\<rparr>) cws])) qs)"

text \<open>
  \<^verbatim>\<open>Query.prototype.require\<close>, \<^verbatim>\<open>first\<close>, \<^verbatim>\<open>forge\<close> and \<^verbatim>\<open>as\<close>, on the
  argument as a boolean (\<^verbatim>\<open>!!require\<close>).
\<close>

definition require :: "bool \<Rightarrow> query \<Rightarrow> query" where
  "require b q = (case q of Query s ws \<Rightarrow> Query (s\<lparr>q_require := b\<rparr>) ws)"

definition first :: "bool \<Rightarrow> query \<Rightarrow> query" where
  "first b q = (case q of Query s ws \<Rightarrow> Query (s\<lparr>q_first := b\<rparr>) ws)"

definition forge :: "bool \<Rightarrow> query \<Rightarrow> query" where
  "forge b q = (case q of Query s ws \<Rightarrow> Query (s\<lparr>q_forge := b\<rparr>) ws)"

definition asQ :: "string \<Rightarrow> query \<Rightarrow> query" where
  "asQ a q = (case q of Query s ws \<Rightarrow> Query (s\<lparr>q_as := Some a\<rparr>) ws)"

text \<open>\<^verbatim>\<open>Query.prototype._getField\<close>\<close>

definition getField :: "qstate \<Rightarrow> string \<Rightarrow> error + field" where
  "getField s name =
     (case getProp (m_fields (q_model s)) name of
        None \<Rightarrow> Inl (Error (''Unknown field '' @ quoted (m_name (q_model s) @ ''.'' @ name)))
      | Some field \<Rightarrow> Inr field)"

text \<open>\<^verbatim>\<open>Query.prototype._pushWhereOrHaving\<close>: the entries pushed onto the list \<open>acc\<close>.\<close>

fun pushWhereOrHaving :: "qstate \<Rightarrow> (string \<times> wvalue) list \<Rightarrow> (field \<times> wvalue) list \<Rightarrow> error + (field \<times> wvalue) list" where
  "pushWhereOrHaving s [] acc = Inr acc"
| "pushWhereOrHaving s ((fieldName, v) # rest) acc =
     (case getField s fieldName of
        Inl e \<Rightarrow> Inl e
      | Inr field \<Rightarrow> pushWhereOrHaving s rest (acc @ [(field, v)]))"

text \<open>\<^verbatim>\<open>Query.prototype.where\<close>\<close>

definition whereQ :: "(string \<times> wvalue) list \<Rightarrow> query \<Rightarrow> error + query" where
  "whereQ w q =
     (case q of Query s ws \<Rightarrow>
        (case pushWhereOrHaving s w (q_where s) of
           Inl e \<Rightarrow> Inl e
         | Inr entries \<Rightarrow> Inr (Query (s\<lparr>q_where := entries\<rparr>) ws)))"


subsection \<open>Operations\<close>

text \<open>
  The collaborators of an operation: lodash's \<^verbatim>\<open>camelCase\<close>; the runtime's
  \<^verbatim>\<open>parseInt\<close> (\<open>None\<close> is \<^verbatim>\<open>NaN\<close>); what the builder's \<^verbatim>\<open>select\<close>,
  \<^verbatim>\<open>insert\<close>, \<^verbatim>\<open>update\<close> and \<^verbatim>\<open>delete\<close> (\<open>e_rows\<close>) and its \<^verbatim>\<open>first\<close>
  (\<open>e_first\<close>) resolve or reject with, given the calls made on the builder; and the
  instance's \<^verbatim>\<open>validate\<close>, \<^verbatim>\<open>getData\<close> and \<^verbatim>\<open>setDefaults\<close>.
\<close>

record env =
  e_camelCase :: "string \<Rightarrow> string"
  e_parseInt :: "prim \<Rightarrow> int option"
  e_rows :: "bcall list \<Rightarrow> string + row list"
  e_first :: "bcall list \<Rightarrow> string + row option"
  e_validate :: "(string \<times> prim) list \<Rightarrow> string list \<Rightarrow> error option"
  e_getData :: "(string \<times> prim) list \<Rightarrow> string list \<Rightarrow> (string \<times> prim) list"
  e_setDefaults :: "(string \<times> prim) list \<Rightarrow> string list option \<Rightarrow> (string \<times> prim) list"

text \<open>\<^verbatim>\<open>Query.prototype._throw\<close>\<close>

definition throw :: "qstate \<Rightarrow> string \<Rightarrow> string option \<Rightarrow> error" where
  "throw s name cause = ModelError name (m_name (q_model s)) cause"

text \<open>\<^verbatim>\<open>o[k]\<close> on an object of primitive values.\<close>

definition readPrim :: "(string \<times> prim) list \<Rightarrow> string \<Rightarrow> prim" where
  "readPrim ps k = (case getProp ps k of None \<Rightarrow> Undefined | Some v \<Rightarrow> v)"

text \<open>
  The aggregate of \<^verbatim>\<open>Query.prototype.count\<close>: \<^verbatim>\<open>countDistinct\<close>, \<^verbatim>\<open>count\<close> of a
  column or \<^verbatim>\<open>count()\<close>, the options being field names (an empty name is falsy).
\<close>

definition countCall :: "qstate \<Rightarrow> string option \<Rightarrow> string option \<Rightarrow> error + bcall" where
  "countCall s distinctName fieldName =
     (if distinctName \<noteq> None \<and> distinctName \<noteq> Some [] then
        (case getField s (the distinctName) of
           Inl e \<Rightarrow> Inl e
         | Inr f \<Rightarrow> Inr (Call ''countDistinct'' [AStr (getColumn s f None)]))
      else if fieldName \<noteq> None \<and> fieldName \<noteq> Some [] then
        (case getField s (the fieldName) of
           Inl e \<Rightarrow> Inl e
         | Inr f \<Rightarrow> Inr (Call ''count'' [AStr (getColumn s f None)]))
      else Inr (Call ''count'' []))"

text \<open>
  \<^verbatim>\<open>Query.prototype.count\<close>. The result is the outcome (the number, \<open>None\<close> for
  \<^verbatim>\<open>NaN\<close>), the query and the calls made on the builder; \<^verbatim>\<open>row.count\<close> of a missing
  row is a type error.
\<close>

definition count :: "env \<Rightarrow> query \<Rightarrow> string option \<Rightarrow> string option \<Rightarrow> (error + int option) \<times> query \<times> bcall list" where
  "count env q distinctName fieldName =
     (case prepareBuilder (e_camelCase env) (no_options\<lparr>includeFields := False\<rparr>) q [] of
        Inl e \<Rightarrow> (Inl e, q, [])
      | Inr (q1, log) \<Rightarrow>
          (case countCall (q_state q1) distinctName fieldName of
             Inl e \<Rightarrow> (Inl e, q1, log)
           | Inr call \<Rightarrow>
               (let log1 = log @ [call, Call ''first'' []]
                in case e_first env log1 of
                     Inl err \<Rightarrow> (Inl (throw (q_state q1) ''CountError'' (Some err)), q1, log1)
                   | Inr None \<Rightarrow> (Inl TypeError, q1, log1)
                   | Inr (Some row) \<Rightarrow> (Inr (e_parseInt env (readPrim row ''count'')), q1, log1))))"

text \<open>\<^verbatim>\<open>Query.prototype._maybeThrowFetchRequireErrors\<close>: the error thrown, if any.\<close>

fun maybeThrowFetchRequireErrors :: "query \<Rightarrow> error option"
  and maybeThrowAll :: "query list \<Rightarrow> error option"
where
  "maybeThrowFetchRequireErrors (Query s ws) =
     (if q_require s then
        (if q_isChild s then Some (throw s ''RowsNotFoundError'' None)
         else Some (throw s (if q_first s then ''RowNotFoundError'' else ''RowsNotFoundError'') None))
      else maybeThrowAll ws)"
| "maybeThrowAll [] = None"
| "maybeThrowAll (q # qs) =
     (case maybeThrowFetchRequireErrors q of Some e \<Rightarrow> Some e | None \<Rightarrow> maybeThrowAll qs)"

text \<open>What a fetch or a delete resolves with.\<close>

datatype fetched = FNull | FUndefined | FRecord jsval | FList "jsval list"

text \<open>\<^verbatim>\<open>Query.prototype.fetch\<close>\<close>

definition fetch :: "env \<Rightarrow> query \<Rightarrow> heap \<Rightarrow> error + (fetched \<times> query \<times> heap)" where
  "fetch env q h =
     (if q_isChild (q_state q) then
        Inl (Error (''Cannot fetch from a child query. ('' @ m_name (q_model (q_state q))
               @ ''.query is '' @ (case q_parent (q_state q) of None \<Rightarrow> [] | Some p \<Rightarrow> p)
               @ ''.query'' @ [CHR 0x27] @ ''s child)''))
      else
        (case prepareBuilder (e_camelCase env) no_options q [] of
           Inl e \<Rightarrow> Inl e
         | Inr (q1, log) \<Rightarrow>
             (case e_rows env (log @ [Call ''select'' []]) of
                Inl err \<Rightarrow> Inl (throw (q_state q1) ''FetchError'' (Some err))
              | Inr rows \<Rightarrow>
                  (if rows = [] then
                     (case maybeThrowFetchRequireErrors q1 of
                        Some e \<Rightarrow> Inl e
                      | None \<Rightarrow> Inr (if q_first (q_state q1) then FNull else FList [], q1, h))
                   else
                     (case parseRows q1 rows h of
                        Inl e \<Rightarrow> Inl e
                      | Inr (parsedRows, q2, h') \<Rightarrow>
                          Inr (if q_first (q_state q2)
                               then (case parsedRows of [] \<Rightarrow> FUndefined | p # _ \<Rightarrow> FRecord p)
                               else FList parsedRows, q2, h'))))))"

text \<open>\<^verbatim>\<open>Query.prototype.delete\<close>\<close>

definition delete :: "env \<Rightarrow> query \<Rightarrow> heap \<Rightarrow> error + (fetched \<times> query \<times> heap)" where
  "delete env q h =
     (case prepareBuilder (e_camelCase env) (no_options\<lparr>forDelete := True\<rparr>) q [] of
        Inl e \<Rightarrow> Inl e
      | Inr (q1, log) \<Rightarrow>
          (case e_rows env (log @ [Call ''delete'' []]) of
             Inl err \<Rightarrow> Inl (throw (q_state q1) ''DeleteError'' (Some err))
           | Inr rows \<Rightarrow>
               (if rows = [] then
                  (if q_require (q_state q1) then Inl (throw (q_state q1) ''RowNotDeletedError'' None)
                   else Inr (FNull, q1, h))
                else
                  (case parseRows q1 rows h of
                     Inl e \<Rightarrow> Inl e
                   | Inr (parsedRows, q2, h') \<Rightarrow> Inr (FList parsedRows, q2, h')))))"

text \<open>
  The data passed to \<^verbatim>\<open>insert\<close>, \<^verbatim>\<open>update\<close> and \<^verbatim>\<open>save\<close>: a primitive, or an
  object with its class (\<open>None\<close> for a plain object, \<open>Some name\<close> for an instance of the
  model of that name) and its properties.
\<close>

datatype jsdata = DPrim prim | DObject "string option" "(string \<times> prim) list"

text \<open>
  \<^verbatim>\<open>Query.prototype._getValidatedInstance\<close>, returning the properties of the instance
  of the query's model. Modelled from the spec: the \<^verbatim>\<open>Model\<close> constructor "builds a
  typed record from a scalar bag", so \<^verbatim>\<open>new this.model(instance)\<close> has the plain
  object's properties.
\<close>

definition getValidatedInstance :: "qstate \<Rightarrow> jsdata \<Rightarrow> string \<Rightarrow> error + (string \<times> prim) list" where
  "getValidatedInstance s instance operation =
     (case instance of
        DPrim p \<Rightarrow> Inl (Error (''Cannot '' @ operation @ '' non-object '' @ quoted (prim_string p)))
      | DObject cls props \<Rightarrow>
          (case cls of
             None \<Rightarrow> Inr props
           | Some c \<Rightarrow>
               (if c = m_name (q_model s) then Inr props
                else Inl (Error (''Cannot '' @ operation @ '' an instance of '' @ c @ '' with ''
                       @ m_name (q_model s) @ ''.query'')))))"

text \<open>\<^verbatim>\<open>Query.prototype._getRow\<close>, after \<^verbatim>\<open>instance.getData\<close> gave \<open>d\<close>.\<close>

fun getRow :: "qstate \<Rightarrow> (string \<times> prim) list \<Rightarrow> string list \<Rightarrow> (string \<times> prim) list \<Rightarrow> error + (string \<times> prim) list" where
  "getRow s d [] row = Inr row"
| "getRow s d (k # ks) row =
     (case getProp (m_fields (q_model s)) k of
        None \<Rightarrow> Inl TypeError
      | Some field \<Rightarrow> getRow s d ks (setProp row (f_column field) (readPrim d (f_name field))))"

text \<open>\<^verbatim>\<open>Query.prototype._setData\<close>\<close>

definition setData :: "(string \<times> prim) list \<Rightarrow> row \<Rightarrow> (string \<times> prim) list" where
  "setData instance row =
     foldl (\<lambda>inst (aliasedField, v). setProp inst (snd (splitColumn aliasedField)) v) instance row"

text \<open>lodash's \<^verbatim>\<open>difference\<close>\<close>

definition difference :: "string list \<Rightarrow> string list \<Rightarrow> string list" where
  "difference xs ys = filter (\<lambda>x. x \<notin> set ys) xs"

text \<open>What an insert or an update resolves with: \<^verbatim>\<open>null\<close> or the instance.\<close>

datatype saved = SNull | SInstance "(string \<times> prim) list"

text \<open>
  The steps that \<^verbatim>\<open>insert\<close> and \<^verbatim>\<open>update\<close> both end with, for the builder
  method \<open>method\<close> (\<^verbatim>\<open>insert\<close> or \<^verbatim>\<open>update\<close>): \<^verbatim>\<open>instance.validate\<close>,
  \<^verbatim>\<open>_getRow\<close>, the builder's call and \<^verbatim>\<open>result[0]\<close>, the \<^verbatim>\<open>require\<close> check and
  \<^verbatim>\<open>_setData\<close>. \<open>failed\<close> and \<open>missing\<close> name the errors of the operation.
\<close>

definition writeRow :: "env \<Rightarrow> string \<Rightarrow> string \<Rightarrow> string \<Rightarrow> query \<Rightarrow> bcall list \<Rightarrow>
    (string \<times> prim) list \<Rightarrow> string list \<Rightarrow> (error + saved) \<times> query \<times> bcall list" where
  "writeRow env method failed missing q log instance fieldsToSave =
     (case e_validate env instance fieldsToSave of
        Some e \<Rightarrow> (Inl e, q, log)
      | None \<Rightarrow>
          (let d = e_getData env instance fieldsToSave
           in case getRow (q_state q) d (map fst d) [] of
                Inl e \<Rightarrow> (Inl e, q, log)
              | Inr row \<Rightarrow>
                  (let log1 = log @ [Call method [ARow row]]
                   in case e_rows env log1 of
                        Inl err \<Rightarrow> (Inl (throw (q_state q) failed (Some err)), q, log1)
                      | Inr [] \<Rightarrow>
                          (if q_require (q_state q)
                           then (Inl (throw (q_state q) missing None), q, log1)
                           else (Inr SNull, q, log1))
                      | Inr (result # _) \<Rightarrow>
                          (Inr (SInstance (setData instance result)), q, log1))))"

text \<open>\<^verbatim>\<open>Query.prototype.insert\<close>\<close>

definition insertQ :: "env \<Rightarrow> query \<Rightarrow> jsdata \<Rightarrow> (error + saved) \<times> query \<times> bcall list" where
  "insertQ env q data =
     (case getValidatedInstance (q_state q) data ''insert'' of
        Inl e \<Rightarrow> (Inl e, q, [])
      | Inr instance \<Rightarrow>
          (case prepareBuilder (e_camelCase env) (no_options\<lparr>forInsert := True\<rparr>) q [] of
             Inl e \<Rightarrow> (Inl e, q, [])
           | Inr (q1, log) \<Rightarrow>
               (let instance1 = e_setDefaults env instance None;
                    idField = m_idField (q_model (q_state q1));
                    fieldsNotToSave = (if readPrim instance1 idField = Undefined then [idField] else []);
                    allFields = map fst (m_fields (q_model (q_state q1)));
                    fieldsToSave = difference allFields fieldsNotToSave
                in writeRow env ''insert'' ''InsertError'' ''RowNotInsertedError'' q1 log
                     instance1 fieldsToSave)))"

text \<open>
  \<^verbatim>\<open>Query.prototype.update\<close>. \<open>updateWhere\<close> is its
  \<^verbatim>\<open>if (id !== undefined) { this.where({ [idField]: id }); }\<close>, \<open>updatedAt\<close> its
  refresh of the \<^verbatim>\<open>updatedAt\<close> field and \<open>fieldsToUpdate\<close> its \<^verbatim>\<open>fieldsToSave\<close>.
\<close>

definition updateWhere :: "query \<Rightarrow> (string \<times> prim) list \<Rightarrow> error + query" where
  "updateWhere q instance =
     (let idField = m_idField (q_model (q_state q));
          idValue = readPrim instance idField
      in if idValue \<noteq> Undefined then whereQ [(idField, WPrim idValue)] q else Inr q)"

definition updatedAt :: "env \<Rightarrow> model \<Rightarrow> (string \<times> prim) list \<Rightarrow> (string \<times> prim) list" where
  "updatedAt env m instance =
     (case m_updatedAtField m of
        None \<Rightarrow> instance
      | Some name \<Rightarrow>
          (case getProp (m_fields m) name of
             None \<Rightarrow> instance
           | Some updatedAtField \<Rightarrow>
               (if f_default updatedAtField \<noteq> None
                then e_setDefaults env (setProp instance ''updatedAt'' Undefined) (Some [name])
                else instance)))"

definition fieldsToUpdate :: "model \<Rightarrow> (string \<times> prim) list \<Rightarrow> string list" where
  "fieldsToUpdate m instance =
     (let allFields = map fst (m_fields m);
          filledFields = filter (\<lambda>name. readPrim instance name \<noteq> Undefined) allFields;
          fieldsNotToSave = [m_idField m]
            @ (case m_createdAtField m of
                 None \<Rightarrow> []
               | Some name \<Rightarrow> (if getProp (m_fields m) name \<noteq> None then [name] else []))
      in difference filledFields fieldsNotToSave)"

definition update :: "env \<Rightarrow> query \<Rightarrow> jsdata \<Rightarrow> (error + saved) \<times> query \<times> bcall list" where
  "update env q data =
     (case getValidatedInstance (q_state q) data ''update'' of
        Inl e \<Rightarrow> (Inl e, q, [])
      | Inr instance \<Rightarrow>
          (case updateWhere q instance of
             Inl e \<Rightarrow> (Inl e, q, [])
           | Inr q0 \<Rightarrow>
               (case prepareBuilder (e_camelCase env) (no_options\<lparr>forUpdate := True\<rparr>) q0 [] of
                  Inl e \<Rightarrow> (Inl e, q0, [])
                | Inr (q1, log) \<Rightarrow>
                    (let instance1 = updatedAt env (q_model (q_state q1)) instance
                     in writeRow env ''update'' ''UpdateError'' ''RowNotUpdatedError'' q1 log
                          instance1 (fieldsToUpdate (q_model (q_state q1)) instance1)))))"

text \<open>
  \<^verbatim>\<open>Query.prototype.save\<close>. Reading a property of \<^verbatim>\<open>null\<close> or \<^verbatim>\<open>undefined\<close> is
  a type error; another primitive has no property of an identity field's name.
\<close>

definition dataProp :: "jsdata \<Rightarrow> string \<Rightarrow> error + prim" where
  "dataProp data k =
     (case data of
        DPrim p \<Rightarrow> (if p = Null \<or> p = Undefined then Inl TypeError else Inr Undefined)
      | DObject cls props \<Rightarrow> Inr (readPrim props k))"

definition save :: "env \<Rightarrow> query \<Rightarrow> jsdata \<Rightarrow> (error + saved) \<times> query \<times> bcall list" where
  "save env q data =
     (case dataProp data (m_idField (q_model (q_state q))) of
        Inl e \<Rightarrow> (Inl e, q, [])
      | Inr idValue \<Rightarrow> (if idValue = Undefined then insertQ env q data else update env q data))"

section \<open>Notions used by the statements\<close>











text \<open>
  The first query that has \<^verbatim>\<open>require\<close> set, a query before the queries joined to
  it and these in their order; \<open>marked\<close> holds of a query that \<^verbatim>\<open>with\<close> marked as a
  child, as it did all the queries joined below it; \<open>same_flags\<close> relates two states of a
  query that agree on what the require errors read.
\<close>

fun firstRequired :: "query \<Rightarrow> qstate option"
  and firstRequiredOf :: "query list \<Rightarrow> qstate option"
where
  "firstRequired (Query s ws) = (if q_require s then Some s else firstRequiredOf ws)"
| "firstRequiredOf [] = None"
| "firstRequiredOf (q # qs) = (case firstRequired q of Some s \<Rightarrow> Some s | None \<Rightarrow> firstRequiredOf qs)"

fun marked :: "query \<Rightarrow> bool" where
  "marked (Query s ws) = (q_isChild s \<and> list_all marked ws)"

definition same_flags :: "qstate \<Rightarrow> qstate \<Rightarrow> bool" where
  "same_flags s s' =
     (q_require s' = q_require s \<and> q_first s' = q_first s \<and> q_isChild s' = q_isChild s \<and>
      q_model s' = q_model s)"
section \<open>The models and collaborators of the examples\<close>

text \<open>
  A \<^verbatim>\<open>Condition\<close> that renders the fields \<^verbatim>\<open>id\<close> and \<^verbatim>\<open>name\<close> of the table
  \<^verbatim>\<open>user\<close> as \<^verbatim>\<open>column = ?\<close> with its value for parameter, and throws on another
  field; and a subquery that selects with no parameters (the grouping tests have both).
\<close>

definition sample_condition :: "string \<Rightarrow> string option \<Rightarrow> unit gvalue \<Rightarrow> error + unit rendering" where
  "sample_condition ty f v =
     (if f = Some ''id'' then Inr \<lparr>r_where = ''user.id = ?'', r_values = [v]\<rparr>
      else if f = Some ''name'' then Inr \<lparr>r_where = ''user.name = ?'', r_values = [v]\<rparr>
      else Inl (Error ''Unknown field''))"

definition sample_select :: "unit \<Rightarrow> error + unit rendering" where
  "sample_select q = Inr \<lparr>r_where = ''SELECT FROM user'', r_values = []\<rparr>"


subsection \<open>The models of the test suite\<close>

text \<open>
  \<^verbatim>\<open>User\<close>, \<^verbatim>\<open>Image\<close>, \<^verbatim>\<open>ImageCategory\<close> and \<^verbatim>\<open>Message\<close> as the query tests
  declare them (columns are snake-cased field names), with the \<^verbatim>\<open>referenced\<close> maps
  their references give.
\<close>

definition plain_field :: "string \<Rightarrow> string \<Rightarrow> string \<Rightarrow> field" where
  "plain_field m n c = \<lparr>f_name = n, f_column = c, f_model = m, f_references = None, f_default = None\<rparr>"

definition reference_field :: "string \<Rightarrow> string \<Rightarrow> string \<Rightarrow> string \<Rightarrow> field" where
  "reference_field m n c target =
     \<lparr>f_name = n, f_column = c, f_model = m, f_references = Some target, f_default = None\<rparr>"

definition Image_userId :: field where
  "Image_userId = reference_field ''Image'' ''userId'' ''user_id'' ''id''"

definition Image_categoryId :: field where
  "Image_categoryId = reference_field ''Image'' ''categoryId'' ''category_id'' ''id''"

definition Message_senderId :: field where
  "Message_senderId = reference_field ''Message'' ''senderId'' ''sender_id'' ''id''"

definition Message_receiverId :: field where
  "Message_receiverId = reference_field ''Message'' ''receiverId'' ''receiver_id'' ''id''"

definition User :: model where
  "User = \<lparr>m_name = ''User'', m_table = Some ''user'', m_idField = ''id'',
            m_fields = [(''id'', plain_field ''User'' ''id'' ''id''),
                        (''name'', plain_field ''User'' ''name'' ''name'')],
            m_referenced = [(''Image'', [(''id'', [Image_userId])]),
                            (''Message'', [(''id'', [Message_senderId, Message_receiverId])])],
            m_updatedAtField = None, m_createdAtField = None\<rparr>"

definition Image :: model where
  "Image = \<lparr>m_name = ''Image'', m_table = Some ''image'', m_idField = ''id'',
             m_fields = [(''id'', plain_field ''Image'' ''id'' ''id''),
                         (''userId'', Image_userId), (''categoryId'', Image_categoryId)],
             m_referenced = [],
             m_updatedAtField = None, m_createdAtField = None\<rparr>"

definition ImageCategory :: model where
  "ImageCategory = \<lparr>m_name = ''ImageCategory'', m_table = Some ''image_category'', m_idField = ''id'',
             m_fields = [(''id'', plain_field ''ImageCategory'' ''id'' ''id''),
                         (''name'', plain_field ''ImageCategory'' ''name'' ''name'')],
             m_referenced = [(''Image'', [(''id'', [Image_categoryId])])],
             m_updatedAtField = None, m_createdAtField = None\<rparr>"

definition Message :: model where
  "Message = \<lparr>m_name = ''Message'', m_table = Some ''message'', m_idField = ''id'',
             m_fields = [(''id'', plain_field ''Message'' ''id'' ''id''),
                         (''text'', plain_field ''Message'' ''text'' ''text''),
                         (''senderId'', Message_senderId), (''receiverId'', Message_receiverId)],
             m_referenced = [],
             m_updatedAtField = None, m_createdAtField = None\<rparr>"

text \<open>
  \<^verbatim>\<open>UuidAsId\<close>, the model of the tests whose identity field is the string field
  \<^verbatim>\<open>uuid\<close>.
\<close>

definition UuidAsId :: model where
  "UuidAsId = \<lparr>m_name = ''UuidAsId'', m_table = Some ''uuid_as_id'', m_idField = ''uuid'',
             m_fields = [(''uuid'', plain_field ''UuidAsId'' ''uuid'' ''uuid''),
                         (''name'', plain_field ''UuidAsId'' ''name'' ''name'')],
             m_referenced = [],
             m_updatedAtField = None, m_createdAtField = None\<rparr>"

text \<open>\<^verbatim>\<open>camelCase\<close> on the names of these models.\<close>

definition camelCase_names :: "string \<Rightarrow> string" where
  "camelCase_names n =
     (if n = ''User'' then ''user'' else if n = ''Image'' then ''image''
      else if n = ''ImageCategory'' then ''imageCategory''
      else if n = ''Message'' then ''message'' else n)"

text \<open>
  \<^verbatim>\<open>parseInt\<close> on the counts of these examples: a string of one to fifteen decimal
  digits is the number it writes, and nothing else is read (\<^verbatim>\<open>NaN\<close>).
\<close>

definition digit_value :: "char \<Rightarrow> nat option" where
  "digit_value c =
     (let i = length (takeWhile (\<lambda>d. d \<noteq> c) ''0123456789'')
      in if i < 10 then Some i else None)"

definition parseInt_digits :: "prim \<Rightarrow> int option" where
  "parseInt_digits p =
     (case p of
        Str s \<Rightarrow>
          (if s \<noteq> [] \<and> length s \<le> 15 \<and> list_all (\<lambda>c. digit_value c \<noteq> None) s
           then Some (int (foldl (\<lambda>acc c. 10 * acc + the (digit_value c)) 0 s))
           else None)
      | _ \<Rightarrow> None)"

text \<open>
  A database that answers every statement with the rows \<open>rows\<close> (and the first of them
  to \<^verbatim>\<open>first()\<close>), and instances that validate and give their data as they hold it.
\<close>

definition answering :: "row list \<Rightarrow> env" where
  "answering rows =
     \<lparr>e_camelCase = camelCase_names,
      e_parseInt = parseInt_digits,
      e_rows = (\<lambda>log. Inr rows),
      e_first = (\<lambda>log. Inr (case rows of [] \<Rightarrow> None | r # _ \<Rightarrow> Some r)),
      e_validate = (\<lambda>instance names. None),
      e_getData = (\<lambda>instance names. filter (\<lambda>(k, v). k \<in> set names) instance),
      e_setDefaults = (\<lambda>instance names. instance)\<rparr>"

text \<open>
  The queries of the examples below. \<open>projr\<close> takes the query out of the result of a
  constructor or of \<^verbatim>\<open>with\<close> that does not throw.
\<close>

definition user_query :: query where
  "user_query = projr (newQuery User)"

text \<open>\<^verbatim>\<open>new Query(User).with(new Query(Image))\<close>\<close>

definition user_image :: query where
  "user_image = projr (withQ (projr (newQuery User)) [projr (newQuery Image)])"

text \<open>\<^verbatim>\<open>new Query(User).with(new Query(Image).require())\<close>\<close>

definition user_required_image :: query where
  "user_required_image =
     projr (withQ (projr (newQuery User)) [require True (projr (newQuery Image))])"

text \<open>
  \<^verbatim>\<open>new Query(User).with([new Query(Image).with(new Query(ImageCategory)), new Query(Message)])\<close>
\<close>

definition user_image_category_message :: query where
  "user_image_category_message =
     projr (withQ (projr (newQuery User))
              [projr (withQ (projr (newQuery Image)) [projr (newQuery ImageCategory)]),
               projr (newQuery Message)])"

text \<open>
  A row of the join of \<^verbatim>\<open>User\<close> (alias \<^verbatim>\<open>user\<close>) and \<^verbatim>\<open>Image\<close> (alias \<^verbatim>\<open>t1\<close>):
  user \<open>u\<close> named \<^verbatim>\<open>A\<close> with image \<open>i\<close>, and the row of a user without image.
\<close>

definition user_image_row :: "int \<Rightarrow> int \<Rightarrow> row" where
  "user_image_row u i =
     [(''user.id'', Num u), (''user.name'', Str ''A''), (''t1.id'', Num i), (''t1.userId'', Num u)]"

definition user_alone_row :: "int \<Rightarrow> row" where
  "user_alone_row u =
     [(''user.id'', Num u), (''user.name'', Str ''A''), (''t1.id'', Null), (''t1.userId'', Null)]"

text \<open>
  The row of the join of a user whose identity is the string \<open>u\<close> with the image \<open>i\<close>.
\<close>

definition keyed_user_image_row :: "string \<Rightarrow> int \<Rightarrow> row" where
  "keyed_user_image_row u i =
     [(''user.id'', Str u), (''user.name'', Str ''A''), (''t1.id'', Num i), (''t1.userId'', Str u)]"

text \<open>\<^verbatim>\<open>new Query(UuidAsId)\<close>, and the row of the record \<open>uuid\<close> named \<open>name\<close>.\<close>

definition uuid_query :: query where
  "uuid_query = projr (newQuery UuidAsId)"

definition uuid_row :: "string \<Rightarrow> string \<Rightarrow> row" where
  "uuid_row uuid name = [(''uuid_as_id.uuid'', Str uuid), (''uuid_as_id.name'', Str name)]"



text \<open>
  A value with its references followed, \<open>n\<close> objects deep: what the caller of a fetch
  sees of the records.
\<close>

datatype jsview =
  VPrim prim | VRef nat | VArr "jsview list" | VObj "(string \<times> jsview) list" | VBuiltin string
  | VClass string

fun view :: "nat \<Rightarrow> heap \<Rightarrow> jsval \<Rightarrow> jsview" where
  "view n h (Prim p) = VPrim p"
| "view n h (Arr xs) = VArr (map (view n h) xs)"
| "view n h (Builtin k) = VBuiltin k"
| "view n h (ClassOf c) = VClass c"
| "view 0 h (Ref a) = VRef a"
| "view (Suc n) h (Ref a) = VObj (map (\<lambda>(k, v). (k, view n h v)) (o_props (h ! a)))"

definition fetchedView :: "error + (fetched \<times> query \<times> heap) \<Rightarrow> error + jsview" where
  "fetchedView r =
     (case r of
        Inl e \<Rightarrow> Inl e
      | Inr (f, q, h) \<Rightarrow>
          Inr (case f of
                 FNull \<Rightarrow> VPrim Null
               | FUndefined \<Rightarrow> VPrim Undefined
               | FRecord p \<Rightarrow> view 3 h p
               | FList ps \<Rightarrow> VArr (map (view 3 h) ps)))"

text \<open>The aliases of a query and of the queries joined to it, parents first.\<close>

fun aliases :: "query \<Rightarrow> string list" where
  "aliases (Query s ws) = q_alias s # concat (map aliases ws)"

text \<open>The tables a compiled statement joins, as the builder was given them.\<close>

fun joinedTables :: "bcall list \<Rightarrow> string list" where
  "joinedTables [] = []"
| "joinedTables (Call m (AStr t # args) # cs) =
     (if m = ''leftJoin'' \<or> m = ''innerJoin'' then t # joinedTables cs else joinedTables cs)"
| "joinedTables (c # cs) = joinedTables cs"

text \<open>The joined query above as a fetch compiles it: \<^verbatim>\<open>Image\<close> has the alias \<^verbatim>\<open>t1\<close>.\<close>

definition user_image_compiled :: query where
  "user_image_compiled = fst (projr (prepareBuilder camelCase_names no_options user_image []))"


section \<open>Rendering a grouping\<close>








text \<open>
  C8. A grouping whose value is an empty list contributes no parameter values, and the
  text \<^verbatim>\<open>()\<close>: \<^verbatim>\<open>getWhere\<close> returns the single rendering as it is only when there is
  exactly one, and with none it joins nothing and still wraps the result in parentheses.
\<close>

theorem grouping_empty_renders_parentheses:
  "getWhere cw gs t (GArr []) = Inr \<lparr>r_where = ''()'', r_values = []\<rparr>"
  by (simp add: combine_def)

text \<open>So the rendering of an empty list is not empty SQL text.\<close>

theorem grouping_empty_not_noop:
  "getWhere sample_condition sample_select And (GArr []) = Inr \<lparr>r_where = ''()'', r_values = []\<rparr> \<and>
   getWhere sample_condition sample_select And (GArr []) \<noteq> Inr \<lparr>r_where = [], r_values = []\<rparr>"
  by (simp add: combine_def)








section \<open>Joined rows, aliases and counts on the test suite's models\<close>

text \<open>
  C1. A parent row whose child columns are all null leaves the child's key unset, one
  matched child row sets the key to the child record, and two matched rows give the list
  of the two records. The third matched row of a parent does not extend that list: the
  key then holds the pair of the previous list and the new record,
  \<^verbatim>\<open>[[image 10, image 11], image 12]\<close>, where the specification has the flat list of
  three.
\<close>

theorem three_matched_children_nest:
  "fetchedView (fetch (answering [user_alone_row 1]) user_image []) =
     Inr (VArr [VObj [(''id'', VPrim (Num 1)), (''name'', VPrim (Str ''A''))]]) \<and>
   fetchedView (fetch (answering [user_image_row 1 10]) user_image []) =
     Inr (VArr [VObj [(''id'', VPrim (Num 1)), (''name'', VPrim (Str ''A'')),
                      (''image'', VObj [(''id'', VPrim (Num 10)), (''userId'', VPrim (Num 1))])]]) \<and>
   fetchedView (fetch (answering [user_image_row 1 10, user_image_row 1 11]) user_image []) =
     Inr (VArr [VObj [(''id'', VPrim (Num 1)), (''name'', VPrim (Str ''A'')),
                      (''image'', VArr [VObj [(''id'', VPrim (Num 10)), (''userId'', VPrim (Num 1))],
                                        VObj [(''id'', VPrim (Num 11)), (''userId'', VPrim (Num 1))]])]]) \<and>
   fetchedView (fetch (answering [user_image_row 1 10, user_image_row 1 11, user_image_row 1 12])
                  user_image []) =
     Inr (VArr [VObj [(''id'', VPrim (Num 1)), (''name'', VPrim (Str ''A'')),
                      (''image'', VArr [VArr [VObj [(''id'', VPrim (Num 10)), (''userId'', VPrim (Num 1))],
                                              VObj [(''id'', VPrim (Num 11)), (''userId'', VPrim (Num 1))]],
                                        VObj [(''id'', VPrim (Num 12)), (''userId'', VPrim (Num 1))]])]])"
  by code_simp

text \<open>
  C2. Compiling \<^verbatim>\<open>User\<close> joined to \<^verbatim>\<open>Image\<close> (itself joined to
  \<^verbatim>\<open>ImageCategory\<close>) and to \<^verbatim>\<open>Message\<close>: each query counts its own joins from its
  own index, so the nested \<^verbatim>\<open>ImageCategory\<close> and the sibling \<^verbatim>\<open>Message\<close> both get
  \<^verbatim>\<open>t2\<close>, where the specification has no two queries of a statement share an alias.
\<close>

theorem nested_and_sibling_share_alias:
  "map_sum id (\<lambda>(q, log). (aliases q, joinedTables log))
     (prepareBuilder camelCase_names no_options user_image_category_message []) =
   Inr ([''user'', ''t1'', ''t2'', ''t2''],
        [''image as t1'', ''image_category as t2'', ''message as t2''])"
  by code_simp

text \<open>
  C6. A count with \<^verbatim>\<open>require\<close> set whose statement counts zero rows resolves with
  \<open>0\<close>: \<^verbatim>\<open>count\<close> never reads \<^verbatim>\<open>_require\<close>, where the specification (and the
  test \<^verbatim>\<open>rejects with a NoRowsCountedError\<close>) has it raise.
\<close>

theorem required_count_of_zero_resolves:
  "q_require (q_state (require True user_query)) \<and>
   fst (count (answering [[(''count'', Str ''0'')]]) (require True user_query) None None) =
     Inr (Some 0)"
  by code_simp


section \<open>One parent record per identity\<close>

text \<open>
  C4. Rows of the same identity give one record, in the order in which the identities are
  first seen: the rows \<^verbatim>\<open>foo\<close>, \<^verbatim>\<open>bar\<close>, \<^verbatim>\<open>foo\<close> give the records
  \<^verbatim>\<open>foo\<close> and \<^verbatim>\<open>bar\<close>, and the two joined rows of the user \<^verbatim>\<open>ann\<close> give one
  user with two images. But an identity whose key names a property that the memo, a plain
  object, inherits from \<^verbatim>\<open>Object.prototype\<close> gets no record at all: for a row of the
  identity \<^verbatim>\<open>constructor\<close> the memo already answers with the function
  \<^verbatim>\<open>Object\<close>, which \<^verbatim>\<open>_parseData\<close> takes for the record filed before. The fetch
  of that row resolves with an empty list (with \<^verbatim>\<open>undefined\<close> when \<^verbatim>\<open>first\<close> is
  set), so does the fetch of the two joined rows of the user \<^verbatim>\<open>constructor\<close>, and
  such rows between others are dropped, where the specification has exactly one parent
  record for each distinct identity.
\<close>

theorem inherited_identity_gets_no_record:
  "fetchedView (fetch (answering [uuid_row ''foo'' ''A'', uuid_row ''bar'' ''B'', uuid_row ''foo'' ''A''])
                  uuid_query []) =
     Inr (VArr [VObj [(''uuid'', VPrim (Str ''foo'')), (''name'', VPrim (Str ''A''))],
                VObj [(''uuid'', VPrim (Str ''bar'')), (''name'', VPrim (Str ''B''))]]) \<and>
   fetchedView (fetch (answering [uuid_row ''constructor'' ''A'']) uuid_query []) = Inr (VArr []) \<and>
   fetchedView (fetch (answering [uuid_row ''constructor'' ''A'']) (first True uuid_query) []) =
     Inr (VPrim Undefined) \<and>
   fetchedView (fetch (answering [uuid_row ''foo'' ''A'', uuid_row ''toString'' ''B'',
                                  uuid_row ''__proto__'' ''C'', uuid_row ''bar'' ''D''])
                  uuid_query []) =
     Inr (VArr [VObj [(''uuid'', VPrim (Str ''foo'')), (''name'', VPrim (Str ''A''))],
                VObj [(''uuid'', VPrim (Str ''bar'')), (''name'', VPrim (Str ''D''))]]) \<and>
   fetchedView (fetch (answering [keyed_user_image_row ''ann'' 10, keyed_user_image_row ''ann'' 11])
                  user_image []) =
     Inr (VArr [VObj [(''id'', VPrim (Str ''ann'')), (''name'', VPrim (Str ''A'')),
                      (''image'', VArr [VObj [(''id'', VPrim (Num 10)), (''userId'', VPrim (Str ''ann''))],
                                        VObj [(''id'', VPrim (Num 11)), (''userId'', VPrim (Str ''ann''))]])]]) \<and>
   fetchedView (fetch (answering [keyed_user_image_row ''constructor'' 10,
                                  keyed_user_image_row ''constructor'' 11])
                  user_image []) =
     Inr (VArr [])"
  by code_simp

section \<open>A fetch that matches no rows\<close>

lemma same_flags_refl: "same_flags s s"
  by (simp add: same_flags_def)

lemma same_flags_trans: "same_flags a b \<Longrightarrow> same_flags b c \<Longrightarrow> same_flags a c"
  by (simp add: same_flags_def)

lemma prepareBefore_flags:
  "prepareBefore opts s log = Inl (s1, l) \<Longrightarrow> same_flags s s1"
  "prepareBefore opts s log = Inr (s1, l) \<Longrightarrow> same_flags s s1"
  by (auto simp: prepareBefore_def Let_def same_flags_def split: if_splits)

lemma prepareAfter_flags: "prepareAfter s log = (s1, l) \<Longrightarrow> same_flags s s1"
  by (auto simp: prepareAfter_def Let_def same_flags_def split: if_splits)

lemma joined_flags: "same_flags c (joined cc s c)"
  by (simp add: joined_def same_flags_def Let_def)

lemma maybeThrow_flags:
  "same_flags s s' \<Longrightarrow> maybeThrowAll ws' = maybeThrowAll ws \<Longrightarrow>
   maybeThrowFetchRequireErrors (Query s' ws') = maybeThrowFetchRequireErrors (Query s ws)"
  by (simp add: same_flags_def throw_def)

lemma prepare_keeps_require_errors:
  "prepareBuilder cc opts q log = Inr (q', log') \<Longrightarrow>
     maybeThrowFetchRequireErrors q' = maybeThrowFetchRequireErrors q \<and>
     same_flags (q_state q) (q_state q')"
  "addWith cc opts s ws log = Inr (s', ws', log') \<Longrightarrow>
     maybeThrowAll ws' = maybeThrowAll ws \<and> same_flags s s'"
proof (induction cc opts q log and cc opts s ws log arbitrary: q' log' and s' ws' log'
    rule: prepareBuilder_addWith.induct)
  case (1 cc opts s ws log)
  show ?case
  proof (cases "prepareBefore opts s log")
    case (Inl a)
    then obtain s1 l where a: "prepareBefore opts s log = Inl (s1, l)" by (cases a) auto
    with "1.prems" have q': "q' = Query s1 ws" by simp
    note f = prepareBefore_flags(1)[OF a]
    have "maybeThrowFetchRequireErrors (Query s1 ws) = maybeThrowFetchRequireErrors (Query s ws)"
      by (rule maybeThrow_flags[OF f refl])
    with f show ?thesis unfolding q' by simp
  next
    case (Inr b)
    then obtain s2 l2 where b: "prepareBefore opts s log = Inr (s2, l2)" by (cases b) auto
    from "1.prems" b obtain s3 ws3 l3 where
      w: "(if ws \<noteq> [] then addWith cc opts s2 ws l2 else Inr (s2, ws, l2)) = Inr (s3, ws3, l3)"
      and q': "q' = Query (fst (prepareAfter s3 l3)) ws3"
      by (auto split: sum.splits prod.splits)
    have m: "maybeThrowAll ws3 = maybeThrowAll ws \<and> same_flags s2 s3"
    proof (cases "ws = []")
      case True
      with w show ?thesis by (simp add: same_flags_refl)
    next
      case False
      with w have "addWith cc opts s2 ws l2 = Inr (s3, ws3, l3)" by simp
      from "1.IH"[OF b refl False this] show ?thesis .
    qed
    have "same_flags s3 (fst (prepareAfter s3 l3))"
      by (rule prepareAfter_flags[of s3 l3 _ "snd (prepareAfter s3 l3)"]) simp
    with m prepareBefore_flags(2)[OF b] have f: "same_flags s (fst (prepareAfter s3 l3))"
      by (blast intro: same_flags_trans)
    have "maybeThrowFetchRequireErrors (Query (fst (prepareAfter s3 l3)) ws3) =
          maybeThrowFetchRequireErrors (Query s ws)"
      using m by (intro maybeThrow_flags[OF f]) simp
    with f show ?thesis unfolding q' by simp
  qed
next
  case (2 cc opts s log)
  then show ?case by (simp add: same_flags_refl)
next
  case (3 cc opts s c cws qs log)
  define s1 where "s1 = s\<lparr>q_index := q_index s + 1\<rparr>"
  define c1 where "c1 = joined cc s1 c"
  from "3.prems" obtain call q1 l1 qs' where
    j: "joinCall s1 c1 = Inr call"
    and p: "prepareBuilder cc opts (Query c1 cws) (log @ [call]) = Inr (q1, l1)"
    and a: "addWith cc opts s1 qs l1 = Inr (s', qs', log')"
    and ws': "ws' = q1 # qs'"
    unfolding s1_def c1_def
    by (auto simp: Let_def split: sum.splits prod.splits)
  from "3.IH"(1)[OF s1_def c1_def j p]
  have e1: "maybeThrowFetchRequireErrors q1 = maybeThrowFetchRequireErrors (Query c1 cws)" by simp
  have e2: "maybeThrowFetchRequireErrors (Query c1 cws) = maybeThrowFetchRequireErrors (Query c cws)"
    unfolding c1_def by (rule maybeThrow_flags[OF joined_flags refl])
  from "3.IH"(2)[OF s1_def c1_def j p refl a]
  have e3: "maybeThrowAll qs' = maybeThrowAll qs" and f: "same_flags s1 s'" by simp_all
  have "same_flags s s1" by (simp add: s1_def same_flags_def)
  from this f have "same_flags s s'" by (rule same_flags_trans)
  moreover have "maybeThrowAll (q1 # qs') = maybeThrowAll (Query c cws # qs)"
    by (simp only: maybeThrowAll.simps e1 e2 e3)
  ultimately show ?case unfolding ws' by simp
qed


lemma marked_require_errors:
  "marked q \<Longrightarrow> maybeThrowFetchRequireErrors q =
     map_option (\<lambda>c. ModelError ''RowsNotFoundError'' (m_name (q_model c)) None) (firstRequired q)"
  "list_all marked qs \<Longrightarrow> maybeThrowAll qs =
     map_option (\<lambda>c. ModelError ''RowsNotFoundError'' (m_name (q_model c)) None) (firstRequiredOf qs)"
  by (induction q and qs rule: firstRequired_firstRequiredOf.induct)
     (auto simp: throw_def split: option.splits)

text \<open>
  C5. A root fetch whose statement resolves with no rows raises the root model's
  \<^verbatim>\<open>RowNotFoundError\<close> when the root has \<^verbatim>\<open>require\<close> and \<^verbatim>\<open>first\<close> set and its
  \<^verbatim>\<open>RowsNotFoundError\<close> when it has \<^verbatim>\<open>require\<close> alone, both without a cause. When
  the root does not require, the fetch raises the \<^verbatim>\<open>RowsNotFoundError\<close> of the first
  joined query (at any depth) that does, and only when none does it resolves with the
  empty list, or with \<^verbatim>\<open>null\<close> when \<^verbatim>\<open>first\<close> is set.
\<close>

theorem fetch_of_no_rows:
  assumes "\<not> q_isChild (q_state q)"
      and "list_all marked (q_with q)"
      and "prepareBuilder (e_camelCase env) no_options q [] = Inr (q1, log)"
      and "e_rows env (log @ [Call ''select'' []]) = Inr []"
  shows "fetch env q h =
     (if q_require (q_state q) then
        Inl (ModelError (if q_first (q_state q) then ''RowNotFoundError'' else ''RowsNotFoundError'')
               (m_name (q_model (q_state q))) None)
      else
        (case firstRequiredOf (q_with q) of
           Some c \<Rightarrow> Inl (ModelError ''RowsNotFoundError'' (m_name (q_model c)) None)
         | None \<Rightarrow> Inr (if q_first (q_state q) then FNull else FList [], q1, h)))"
proof -
  from prepare_keeps_require_errors(1)[OF assms(3)]
  have m: "maybeThrowFetchRequireErrors q1 = maybeThrowFetchRequireErrors q"
    and f: "same_flags (q_state q) (q_state q1)" by simp_all
  have "fetch env q h =
      (case maybeThrowFetchRequireErrors q of
         Some e \<Rightarrow> Inl e
       | None \<Rightarrow> Inr (if q_first (q_state q) then FNull else FList [], q1, h))"
    using assms(1,3,4) m f by (simp add: fetch_def same_flags_def)
  also have "maybeThrowFetchRequireErrors q =
      (if q_require (q_state q) then
         Some (ModelError (if q_first (q_state q) then ''RowNotFoundError'' else ''RowsNotFoundError'')
                 (m_name (q_model (q_state q))) None)
       else map_option (\<lambda>c. ModelError ''RowsNotFoundError'' (m_name (q_model c)) None)
              (firstRequiredOf (q_with q)))"
    using assms(1,2) by (cases q) (simp add: throw_def marked_require_errors(2))
  finally show ?thesis by (simp split: option.splits)
qed

theorem fetch_of_no_rows_witness:
  "fetch (answering []) user_image [] =
     Inr (FList [], fst (projr (prepareBuilder camelCase_names no_options user_image [])), []) \<and>
   map_sum id fst (fetch (answering []) (first True user_image) []) = Inr FNull \<and>
   fetch (answering []) (require True user_image) [] =
     Inl (ModelError ''RowsNotFoundError'' ''User'' None) \<and>
   fetch (answering []) (first True (require True user_image)) [] =
     Inl (ModelError ''RowNotFoundError'' ''User'' None) \<and>
   fetch (answering []) user_required_image [] =
     Inl (ModelError ''RowsNotFoundError'' ''Image'' None)"
proof -
  have m: "list_all marked (q_with user_image)" "list_all marked (q_with (first True user_image))"
    "list_all marked (q_with (require True user_image))"
    "list_all marked (q_with (first True (require True user_image)))"
    "list_all marked (q_with user_required_image)"
    by code_simp+
  have c: "\<not> q_isChild (q_state user_image)" "\<not> q_isChild (q_state (first True user_image))"
    "\<not> q_isChild (q_state (require True user_image))"
    "\<not> q_isChild (q_state (first True (require True user_image)))"
    "\<not> q_isChild (q_state user_required_image)"
    by code_simp+
  have p: "\<And>q. isl (prepareBuilder camelCase_names no_options q []) = False \<Longrightarrow>
      prepareBuilder (e_camelCase (answering [])) no_options q [] =
        Inr (fst (projr (prepareBuilder camelCase_names no_options q [])),
             snd (projr (prepareBuilder camelCase_names no_options q [])))"
    by (simp add: answering_def)
  have i: "isl (prepareBuilder camelCase_names no_options user_image []) = False"
    "isl (prepareBuilder camelCase_names no_options (first True user_image) []) = False"
    "isl (prepareBuilder camelCase_names no_options (require True user_image) []) = False"
    "isl (prepareBuilder camelCase_names no_options (first True (require True user_image)) []) = False"
    "isl (prepareBuilder camelCase_names no_options user_required_image []) = False"
    by code_simp+
  have r: "\<And>log. e_rows (answering []) log = Inr []"
    by (simp add: answering_def)
  have e: "q_require (q_state user_image) = False" "q_first (q_state user_image) = False"
    "firstRequiredOf (q_with user_image) = None"
    "q_require (q_state (first True user_image)) = False" "q_first (q_state (first True user_image)) = True"
    "firstRequiredOf (q_with (first True user_image)) = None"
    "q_require (q_state (require True user_image)) = True"
    "q_first (q_state (require True user_image)) = False"
    "m_name (q_model (q_state (require True user_image))) = ''User''"
    "q_require (q_state (first True (require True user_image))) = True"
    "q_first (q_state (first True (require True user_image))) = True"
    "m_name (q_model (q_state (first True (require True user_image)))) = ''User''"
    "q_require (q_state user_required_image) = False"
    "map_option (\<lambda>c. m_name (q_model c)) (firstRequiredOf (q_with user_required_image)) = Some ''Image''"
    by code_simp+
  from e(14) obtain c where fr: "firstRequiredOf (q_with user_required_image) = Some c"
    and cn: "m_name (q_model c) = ''Image''" by auto
  show ?thesis
    using fetch_of_no_rows [OF c(1) m(1) p[OF i(1)] r, of "[]"]
          fetch_of_no_rows [OF c(2) m(2) p[OF i(2)] r, of "[]"]
          fetch_of_no_rows [OF c(3) m(3) p[OF i(3)] r, of "[]"]
          fetch_of_no_rows [OF c(4) m(4) p[OF i(4)] r, of "[]"]
          fetch_of_no_rows [OF c(5) m(5) p[OF i(5)] r, of "[]"]
    unfolding e(1-13) fr by (simp add: cn)
qed

text \<open>
  A root that does not require, joined to a query that does (an inner join): the fetch
  of no rows raises, it does not resolve with the empty list.
\<close>

theorem required_child_raises:
  "\<not> q_require (q_state user_required_image) \<and>
   fetch (answering []) user_required_image [] = Inl (ModelError ''RowsNotFoundError'' ''Image'' None)"
  by code_simp


section \<open>Saving: insert or update, and the identity clause of an update\<close>





lemma whereOrHavingCall_returning:
  "whereOrHavingCall (s\<lparr>q_returning := x\<rparr>) key e = whereOrHavingCall s key e"
  by (simp add: whereOrHavingCall_def getColumn_def)







text \<open>
  C9. \<^verbatim>\<open>save(data)\<close> on an object is \<^verbatim>\<open>insert(data)\<close> when the data's identity
  field is undefined (absent, or present with the value \<^verbatim>\<open>undefined\<close>) and
  \<^verbatim>\<open>update(data)\<close> when it is defined.
\<close>

theorem save_inserts_or_updates:
  "save env q (DObject cls props) =
     (if readPrim props (m_idField (q_model (q_state q))) = Undefined
      then insertQ env q (DObject cls props)
      else update env q (DObject cls props))"
  by (simp add: save_def dataProp_def)

theorem save_inserts_or_updates_witness:
  "fst (save (answering [[(''user.id'', Num 7), (''user.name'', Str ''Jane'')]]) user_query
          (DObject None [(''name'', Str ''Jane'')])) =
     Inr (SInstance [(''name'', Str ''Jane''), (''id'', Num 7)]) \<and>
   last (snd (snd (save (answering [[(''user.id'', Num 7), (''user.name'', Str ''Jane'')]]) user_query
          (DObject None [(''name'', Str ''Jane'')])))) =
     Call ''insert'' [ARow [(''name'', Str ''Jane'')]] \<and>
   last (snd (snd (save (answering [[(''user.id'', Num 7), (''user.name'', Str ''Jane'')]]) user_query
          (DObject None [(''id'', Num 7), (''name'', Str ''Jane'')])))) =
     Call ''update'' [ARow [(''name'', Str ''Jane'')]]"
proof -
  let ?env = "answering [[(''user.id'', Num 7), (''user.name'', Str ''Jane'')]]"
  have a: "readPrim [(''name'', Str ''Jane'')] (m_idField (q_model (q_state user_query))) = Undefined"
    and b: "readPrim [(''id'', Num 7), (''name'', Str ''Jane'')] (m_idField (q_model (q_state user_query)))
              \<noteq> Undefined"
    by code_simp+
  have i: "fst (insertQ ?env user_query (DObject None [(''name'', Str ''Jane'')])) =
             Inr (SInstance [(''name'', Str ''Jane''), (''id'', Num 7)])"
    and j: "last (snd (snd (insertQ ?env user_query (DObject None [(''name'', Str ''Jane'')])))) =
             Call ''insert'' [ARow [(''name'', Str ''Jane'')]]"
    and u: "last (snd (snd (update ?env user_query (DObject None [(''id'', Num 7), (''name'', Str ''Jane'')])))) =
             Call ''update'' [ARow [(''name'', Str ''Jane'')]]"
    by code_simp+
  show ?thesis
    using save_inserts_or_updates [of ?env user_query None "[(''name'', Str ''Jane'')]"]
          save_inserts_or_updates [of ?env user_query None "[(''id'', Num 7), (''name'', Str ''Jane'')]"]
          a b i j u
    by simp
qed









end
